theory Spec2Isabelle
  imports Complex_Main
begin

section \<open>JavaScript values\<close>

text \<open>
  A JavaScript \<^verbatim>\<open>number\<close> is a double: a finite value, \<^verbatim>\<open>NaN\<close> or one of the two
  infinities. A finite double is modelled by the decimal that \<^verbatim>\<open>toString\<close> prints for
  it, the shortest decimal whose nearest double it is: \<open>Num (1 / 10)\<close> is the double
  \<^verbatim>\<open>0.1\<close>. Different doubles print differently and in the order of their values, so
  comparisons are those of the doubles. Section \<open>Doubles\<close> defines the rounding of a
  real to the nearest double. The two zeros are one number of the model.
\<close>

datatype jsnum = Num rat | NaN | PosInf | NegInf

text \<open>
  \<^verbatim>\<open>CellValue = string | number | Date | boolean | null\<close>. Reading an array past its
  end gives \<^verbatim>\<open>undefined\<close>, so that value is a cell of the model too. A \<^verbatim>\<open>Date\<close> is
  represented by the text that \<^verbatim>\<open>String(date)\<close> yields for it, the only thing the
  code ever asks of a date.
\<close>

datatype cell = CStr string | CNum jsnum | CBool bool | CDate string | CNull | CUndef

type_synonym ExcelRow = "cell list"
type_synonym ExcelSheet = "cell list list"

definition isNaN :: "jsnum \<Rightarrow> bool" where
  "isNaN x = (x = NaN)"

definition isFinite :: "jsnum \<Rightarrow> bool" where
  "isFinite x = (case x of Num _ \<Rightarrow> True | _ \<Rightarrow> False)"

text \<open>\<^verbatim>\<open>x < 0\<close>, \<^verbatim>\<open>x >= 0\<close>, \<^verbatim>\<open>x > 0\<close> and \<^verbatim>\<open>x === 0\<close> on numbers; every comparison with NaN is false.\<close>

fun lt0 :: "jsnum \<Rightarrow> bool" where
  "lt0 (Num q) = (q < 0)"
| "lt0 NegInf = True"
| "lt0 _ = False"

fun ge0 :: "jsnum \<Rightarrow> bool" where
  "ge0 (Num q) = (0 \<le> q)"
| "ge0 PosInf = True"
| "ge0 _ = False"

fun gt0 :: "jsnum \<Rightarrow> bool" where
  "gt0 (Num q) = (0 < q)"
| "gt0 PosInf = True"
| "gt0 _ = False"

fun Math_abs :: "jsnum \<Rightarrow> jsnum" where
  "Math_abs (Num q) = Num \<bar>q\<bar>"
| "Math_abs NaN = NaN"
| "Math_abs _ = PosInf"

text \<open>\<^verbatim>\<open>xs[i]\<close>: \<^verbatim>\<open>undefined\<close> outside the array.\<close>

definition cellAt :: "cell list \<Rightarrow> int \<Rightarrow> cell" where
  "cellAt xs i = (if 0 \<le> i \<and> i < int (length xs) then xs ! nat i else CUndef)"

text \<open>Truthiness, and \<^verbatim>\<open>v || ''\<close>.\<close>

fun truthy :: "cell \<Rightarrow> bool" where
  "truthy (CStr s) = (s \<noteq> [])"
| "truthy (CNum (Num q)) = (q \<noteq> 0)"
| "truthy (CNum NaN) = False"
| "truthy (CNum _) = True"
| "truthy (CBool b) = b"
| "truthy (CDate _) = True"
| "truthy CNull = False"
| "truthy CUndef = False"

definition orEmpty :: "cell \<Rightarrow> cell" where
  "orEmpty v = (if truthy v then v else CStr [])"

text \<open>
  \<^verbatim>\<open>String(v)\<close>. The text that \<^verbatim>\<open>Number.prototype.toString\<close> prints for a finite
  number (its digits, in plain or exponent notation) is a parameter \<open>fmt\<close> of every
  function that converts a number to text.
\<close>

fun numToString :: "(rat \<Rightarrow> string) \<Rightarrow> jsnum \<Rightarrow> string" where
  "numToString fmt (Num q) = fmt q"
| "numToString fmt NaN = ''NaN''"
| "numToString fmt PosInf = ''Infinity''"
| "numToString fmt NegInf = ''-Infinity''"

fun String_js :: "(rat \<Rightarrow> string) \<Rightarrow> cell \<Rightarrow> string" where
  "String_js fmt (CStr s) = s"
| "String_js fmt (CNum n) = numToString fmt n"
| "String_js fmt (CBool b) = (if b then ''true'' else ''false'')"
| "String_js fmt (CDate txt) = txt"
| "String_js fmt CNull = ''null''"
| "String_js fmt CUndef = ''undefined''"

section \<open>Strings\<close>

text \<open>
  A string is a list of characters with codes below 256, read as the code points
  U+0000 to U+00FF. The symbols of the source outside that range (the euro and rupee
  signs, the Unicode spaces from U+2000 on) cannot occur in a string of the model.
\<close>

definition isSpace :: "char \<Rightarrow> bool" where
  "isSpace c = ((of_char c :: nat) \<in> {9, 10, 11, 12, 13, 32, 160})"

definition isDigit :: "char \<Rightarrow> bool" where
  "isDigit c = (48 \<le> (of_char c :: nat) \<and> (of_char c :: nat) \<le> 57)"

definition digitVal :: "char \<Rightarrow> nat" where
  "digitVal c = of_char c - 48"

definition trim :: "string \<Rightarrow> string" where
  "trim s = rev (dropWhile isSpace (rev (dropWhile isSpace s)))"

definition lowerChar :: "char \<Rightarrow> char" where
  "lowerChar c =
     (let n = (of_char c :: nat)
      in if (65 \<le> n \<and> n \<le> 90) \<or> (192 \<le> n \<and> n \<le> 222 \<and> n \<noteq> 215)
         then char_of (n + 32) else c)"

definition toLowerCase :: "string \<Rightarrow> string" where
  "toLowerCase s = map lowerChar s"

definition startsWith :: "string \<Rightarrow> string \<Rightarrow> bool" where
  "startsWith s k = (take (length k) s = k)"

text \<open>\<^verbatim>\<open>s.indexOf(k)\<close>, with \<open>None\<close> for \<^verbatim>\<open>-1\<close>, and \<^verbatim>\<open>s.includes(k)\<close>.\<close>

fun indexOf :: "string \<Rightarrow> string \<Rightarrow> nat option" where
  "indexOf [] k = (if k = [] then Some 0 else None)"
| "indexOf (c # cs) k =
     (if startsWith (c # cs) k then Some 0 else map_option Suc (indexOf cs k))"

definition includes_js :: "string \<Rightarrow> string \<Rightarrow> bool" where
  "includes_js s k = (indexOf s k \<noteq> None)"

section \<open>Doubles\<close>

text \<open>
  The Number value of a real \<open>r\<close> is the double nearest to it (IEEE 754 binary64, ties
  to the even significand), an infinity from \<open>2^1024\<close> on. \<open>doubleOf\<close> gives that
  double by its exact value: with \<open>2^e \<le> r < 2^(e+1)\<close> the significand has 53 bits at
  the unit \<open>2^(e-52)\<close>, and never a finer unit than \<open>2^-1074\<close>, that of the subnormal
  numbers. The logarithms are found by repeated division; 1100 steps cover every
  magnitude that can arise from two doubles.
\<close>

definition pow10 :: "int \<Rightarrow> rat" where
  "pow10 e = (if 0 \<le> e then 10 ^ nat e else 1 / 10 ^ nat (- e))"

definition pow2 :: "int \<Rightarrow> rat" where
  "pow2 e = (if 0 \<le> e then 2 ^ nat e else 1 / 2 ^ nat (- e))"

fun logUp :: "rat \<Rightarrow> nat \<Rightarrow> rat \<Rightarrow> int" where
  "logUp b fuel r = (if fuel = 0 \<or> r < b then 0 else 1 + logUp b (fuel - 1) (r / b))"

fun logDown :: "rat \<Rightarrow> nat \<Rightarrow> rat \<Rightarrow> int" where
  "logDown b fuel r = (if fuel = 0 \<or> 1 \<le> r then 0 else logDown b (fuel - 1) (r * b) - 1)"

text \<open>For \<open>0 < r\<close>, the integer \<open>e\<close> with \<open>b^e \<le> r < b^(e+1)\<close>.\<close>

definition floorLog :: "rat \<Rightarrow> rat \<Rightarrow> int" where
  "floorLog b r = (if 1 \<le> r then logUp b 1100 r else logDown b 1100 r)"

definition roundHalfEven :: "rat \<Rightarrow> int" where
  "roundHalfEven q =
     (if q - of_int \<lfloor>q\<rfloor> < 1 / 2 then \<lfloor>q\<rfloor>
      else if 1 / 2 < q - of_int \<lfloor>q\<rfloor> then \<lfloor>q\<rfloor> + 1
      else if even \<lfloor>q\<rfloor> then \<lfloor>q\<rfloor> else \<lfloor>q\<rfloor> + 1)"

text \<open>The double nearest to \<open>r > 0\<close>; \<open>None\<close> is the overflow to infinity.\<close>

definition doublePos :: "rat \<Rightarrow> rat option" where
  "doublePos r =
     (if 2 ^ 1024 \<le> r then None
      else
        let p = max (floorLog 2 r - 52) (- 1074);
            v = of_int (roundHalfEven (r / pow2 p)) * pow2 p
        in if 2 ^ 1024 \<le> v then None else Some v)"

definition doubleOf :: "rat \<Rightarrow> jsnum" where
  "doubleOf r =
     (if r = 0 then Num 0
      else if 0 < r then (case doublePos r of None \<Rightarrow> PosInf | Some v \<Rightarrow> Num v)
      else (case doublePos (- r) of None \<Rightarrow> NegInf | Some v \<Rightarrow> Num (- v)))"

text \<open>
  \<^verbatim>\<open>Number.prototype.toString\<close> prints the decimal with the fewest significant digits
  whose Number value is the double, and of several such decimals the one nearest to the
  double (the even last digit on a tie); 17 digits always suffice. \<open>shortestFrom j x\<close>
  tries \<open>17 - j\<close> digits and more: at each length only the two decimals around \<open>x\<close>
  can qualify.
\<close>

fun shortestFrom :: "nat \<Rightarrow> rat \<Rightarrow> rat" where
  "shortestFrom j x =
     (let u = pow10 (floorLog 10 x - 16 + int j);
          lo = of_int \<lfloor>x / u\<rfloor> * u;
          hi = lo + u;
          okLo = (doublePos lo = Some x);
          okHi = (doublePos hi = Some x)
      in if okLo \<and> okHi then
           (if x - lo < hi - x then lo
            else if hi - x < x - lo then hi
            else if even \<lfloor>x / u\<rfloor> then lo else hi)
         else if okLo then lo
         else if okHi then hi
         else if j = 0 then x
         else shortestFrom (j - 1) x)"

definition shortest :: "rat \<Rightarrow> rat" where
  "shortest x = (if x = 0 then 0 else if 0 < x then shortestFrom 16 x else - shortestFrom 16 (- x))"

text \<open>
  The Number value of \<open>r\<close> as a number of the model: the decimal that the nearest
  double prints as.
\<close>

definition nearestDouble :: "rat \<Rightarrow> jsnum" where
  "nearestDouble r = (case doubleOf r of Num x \<Rightarrow> Num (shortest x) | other \<Rightarrow> other)"

text \<open>\<^verbatim>\<open>x / 100\<close>: the quotient of the double by 100, rounded to a double.\<close>

fun div100 :: "jsnum \<Rightarrow> jsnum" where
  "div100 (Num q) = (case doubleOf q of Num x \<Rightarrow> nearestDouble (x / 100) | other \<Rightarrow> other)"
| "div100 x = x"

section \<open>parseFloat\<close>

text \<open>
  \<^verbatim>\<open>parseFloat\<close> skips leading white space and reads the longest prefix that is a
  decimal literal: an optional sign, then \<^verbatim>\<open>Infinity\<close> or digits with an optional
  fraction and an optional exponent. Without such a prefix the result is NaN; with one,
  it is the Number value of the literal.
\<close>

definition digitsVal :: "string \<Rightarrow> nat" where
  "digitsVal ds = foldl (\<lambda>acc c. 10 * acc + digitVal c) 0 ds"

text \<open>The exponent part (\<^verbatim>\<open>e\<close> or \<^verbatim>\<open>E\<close>, an optional sign, at least one digit), 0 without one.\<close>

definition exponentPart :: "string \<Rightarrow> int" where
  "exponentPart r =
     (case r of
        [] \<Rightarrow> 0
      | c # r1 \<Rightarrow>
          if c = CHR ''e'' \<or> c = CHR ''E'' then
            (case r1 of
               [] \<Rightarrow> 0
             | d # r2 \<Rightarrow>
                 if d = CHR ''-'' then
                   (if takeWhile isDigit r2 = [] then 0
                    else - int (digitsVal (takeWhile isDigit r2)))
                 else if d = CHR ''+'' then int (digitsVal (takeWhile isDigit r2))
                 else int (digitsVal (takeWhile isDigit r1)))
          else 0)"

definition unsignedLiteral :: "string \<Rightarrow> rat option" where
  "unsignedLiteral u =
     (let ip = takeWhile isDigit u;
          r1 = dropWhile isDigit u;
          fp = (case r1 of [] \<Rightarrow> [] | c # r \<Rightarrow> if c = CHR ''.'' then takeWhile isDigit r else []);
          r2 = (case r1 of [] \<Rightarrow> [] | c # r \<Rightarrow> if c = CHR ''.'' then dropWhile isDigit r else r1)
      in if ip = [] \<and> fp = [] then None
         else Some (of_nat (digitsVal (ip @ fp)) * pow10 (exponentPart r2 - int (length fp))))"

definition parseFloat :: "string \<Rightarrow> jsnum" where
  "parseFloat s =
     (let t = dropWhile isSpace s;
          neg = (case t of [] \<Rightarrow> False | c # _ \<Rightarrow> c = CHR ''-'');
          u = (case t of [] \<Rightarrow> [] | c # r \<Rightarrow> if c = CHR ''-'' \<or> c = CHR ''+'' then r else t)
      in if startsWith u ''Infinity'' then (if neg then NegInf else PosInf)
         else (case unsignedLiteral u of
                 None \<Rightarrow> NaN
               | Some v \<Rightarrow> nearestDouble (if neg then - v else v)))"

section \<open>The markup service: parsing a cost cell\<close>

definition placeholders :: "string list" where
  "placeholders =
     ['''', ''-'', ''N/A'', ''n/a'', ''NULL'', ''null'', ''#N/A'', ''TBC'', ''tbc'',
      ''TBA'', ''tba'', ''POA'', ''poa'', ''CALL'', ''call'']"

text \<open>
  The chain of \<^verbatim>\<open>replace\<close> calls, one filter for each: currency symbols (the class is
  case insensitive, so both \<^verbatim>\<open>R\<close> and \<^verbatim>\<open>r\<close> go), commas and white space,
  parentheses, quotes, and at last everything that is not a digit, a dot or a minus.
\<close>

definition isCurrency :: "char \<Rightarrow> bool" where
  "isCurrency c = (c = CHR ''$'' \<or> c = CHR 0xA3 \<or> c = CHR 0xA5 \<or> c = CHR ''R'' \<or> c = CHR ''r'')"

definition clean :: "string \<Rightarrow> string" where
  "clean s =
     filter (\<lambda>c. isDigit c \<or> c = CHR ''.'' \<or> c = CHR ''-'')
       (filter (\<lambda>c. c \<noteq> CHR 0x27 \<and> c \<noteq> CHR 0x22)
          (filter (\<lambda>c. c \<noteq> CHR ''('' \<and> c \<noteq> CHR '')'')
             (filter (\<lambda>c. c \<noteq> CHR '','' \<and> \<not> isSpace c)
                (filter (\<lambda>c. \<not> isCurrency c) s))))"

text \<open>The result of a successful parse: \<^verbatim>\<open>p >= 0 ? p : Math.abs(p)\<close>.\<close>

definition nonNegative :: "jsnum \<Rightarrow> jsnum" where
  "nonNegative p = (if ge0 p then p else Math_abs p)"

definition parseNumericValue :: "string \<Rightarrow> jsnum option" where
  "parseNumericValue v =
     (if v = [] then None
      else
        let stringValue = trim v in
        if stringValue \<in> set placeholders then None
        else
          let directParse = parseFloat stringValue in
          if \<not> isNaN directParse \<and> isFinite directParse then Some (nonNegative directParse)
          else
            let cleaned = clean stringValue in
            if cleaned = [] then None
            else if includes_js stringValue ''%'' then
              (let parsed = parseFloat (filter (\<lambda>c. c \<noteq> CHR ''%'') cleaned)
               in if \<not> isNaN parsed \<and> isFinite parsed then Some (div100 parsed) else None)
            else
              (let finalParse = parseFloat cleaned
               in if \<not> isNaN finalParse \<and> isFinite finalParse
                  then Some (nonNegative finalParse) else None))"

section \<open>The markup service: one markup price\<close>

text \<open>
  Decimal.js, a library the repository imports, is modelled from its documentation, at
  its default configuration: precision 20, rounding mode \<^verbatim>\<open>ROUND_HALF_UP\<close>. A
  \<^verbatim>\<open>Decimal\<close> is a finite decimal, NaN or an infinity, so it is a \<open>jsnum\<close>.
  \<^verbatim>\<open>new Decimal(x)\<close> parses \<^verbatim>\<open>x.toString()\<close> without rounding, so the Decimal of a
  finite number is the decimal that stands for it in the model. \<^verbatim>\<open>div\<close>, \<^verbatim>\<open>plus\<close> and
  \<^verbatim>\<open>mul\<close> round their result to 20 significant digits, half away from zero
  (\<open>roundPrecision\<close>). \<^verbatim>\<open>toDecimalPlaces(dp)\<close> throws unless \<open>dp\<close> is an integer from 0
  to 1e9, and rounds half away from zero. \<^verbatim>\<open>toNumber()\<close> is the Number value of the
  decimal.
\<close>

definition roundPrecision :: "rat \<Rightarrow> rat" where
  "roundPrecision x =
     (if x = 0 then 0
      else
        let u = pow10 (floorLog 10 \<bar>x\<bar> - 19);
            m = of_int \<lfloor>\<bar>x\<bar> / u + 1 / 2\<rfloor> * u
        in if 0 < x then m else - m)"

fun dec_div :: "jsnum \<Rightarrow> rat \<Rightarrow> jsnum" where
  "dec_div (Num q) d = Num (roundPrecision (q / d))"
| "dec_div x d = x"

fun dec_plus :: "jsnum \<Rightarrow> rat \<Rightarrow> jsnum" where
  "dec_plus (Num q) d = Num (roundPrecision (q + d))"
| "dec_plus x d = x"

text \<open>The product of a finite decimal with a decimal.\<close>

fun dec_mul :: "rat \<Rightarrow> jsnum \<Rightarrow> jsnum" where
  "dec_mul c (Num q) = Num (roundPrecision (c * q))"
| "dec_mul c NaN = NaN"
| "dec_mul c PosInf = (if c = 0 then NaN else if 0 < c then PosInf else NegInf)"
| "dec_mul c NegInf = (if c = 0 then NaN else if 0 < c then NegInf else PosInf)"

definition roundHalfUp :: "nat \<Rightarrow> rat \<Rightarrow> rat" where
  "roundHalfUp dp q =
     (if 0 \<le> q then of_int \<lfloor>q * 10 ^ dp + 1 / 2\<rfloor> / 10 ^ dp
      else - (of_int \<lfloor>- q * 10 ^ dp + 1 / 2\<rfloor> / 10 ^ dp))"

definition validPlaces :: "jsnum \<Rightarrow> nat option" where
  "validPlaces dp =
     (case dp of
        Num d \<Rightarrow> if d = of_int \<lfloor>d\<rfloor> \<and> 0 \<le> d \<and> d \<le> 1000000000 then Some (nat \<lfloor>d\<rfloor>) else None
      | _ \<Rightarrow> None)"

text \<open>\<open>None\<close> is the exception that \<^verbatim>\<open>toDecimalPlaces\<close> throws.\<close>

definition toDecimalPlaces :: "jsnum \<Rightarrow> jsnum \<Rightarrow> jsnum option" where
  "toDecimalPlaces x dp =
     (case validPlaces dp of
        None \<Rightarrow> None
      | Some n \<Rightarrow> Some (case x of Num q \<Rightarrow> Num (roundHalfUp n q) | _ \<Rightarrow> x))"

fun toNumber :: "jsnum \<Rightarrow> jsnum" where
  "toNumber (Num q) = nearestDouble q"
| "toNumber x = x"

text \<open>
  \<^verbatim>\<open>calculateSingleMarkup\<close>; \<open>None\<close> is \<^verbatim>\<open>null\<close>. The \<^verbatim>\<open>catch\<close> turns the exception of
  \<^verbatim>\<open>toDecimalPlaces\<close> into \<^verbatim>\<open>null\<close>.
\<close>

definition numericCost :: "cell \<Rightarrow> jsnum option" where
  "numericCost costValue =
     (case costValue of
        CNull \<Rightarrow> None
      | CUndef \<Rightarrow> None
      | CNum n \<Rightarrow> Some n
      | CStr s \<Rightarrow> parseNumericValue s
      | CBool b \<Rightarrow> parseNumericValue (if b then ''true'' else ''false'')
      | CDate txt \<Rightarrow> parseNumericValue txt)"

definition calculateSingleMarkup :: "cell \<Rightarrow> jsnum \<Rightarrow> jsnum \<Rightarrow> jsnum option" where
  "calculateSingleMarkup costValue markupPercentage decimalPlaces =
     (case numericCost costValue of
        None \<Rightarrow> None
      | Some n \<Rightarrow>
          if isNaN n \<or> \<not> isFinite n \<or> lt0 n then None
          else
            (case n of
               Num c \<Rightarrow>
                 if c = 0 then Some (Num 0)
                 else
                   (let markupMultiplier = dec_plus (dec_div markupPercentage 100) 1;
                        markupPrice = dec_mul c markupMultiplier
                    in map_option toNumber (toDecimalPlaces markupPrice decimalPlaces))
             | _ \<Rightarrow> None))"

section \<open>The cost price detection service\<close>

datatype DetectionMethod =
  header_exact_match | header_partial_match | data_pattern_match
  | position_heuristic | user_selected | forced_numeric

record DetectionResult =
  columnIndex :: int
  confidence :: rat
  detectionMethod :: DetectionMethod
  alternativeColumns :: "int list option"

text \<open>\<^verbatim>\<open>DetectionOptions\<close>: every field may be absent, and the defaults fill the gaps.\<close>

record DetectionOptions =
  minConfidence :: "jsnum option"
  requiredDataRows :: "jsnum option"
  customPriceKeywords :: "string list option"

definition noOptions :: DetectionOptions where
  "noOptions = \<lparr>minConfidence = None, requiredDataRows = None, customPriceKeywords = None\<rparr>"

definition optMinConfidence :: "DetectionOptions \<Rightarrow> jsnum" where
  "optMinConfidence options = (case minConfidence options of None \<Rightarrow> Num (3 / 10) | Some v \<Rightarrow> v)"

definition optRequiredDataRows :: "DetectionOptions \<Rightarrow> jsnum" where
  "optRequiredDataRows options = (case requiredDataRows options of None \<Rightarrow> Num 5 | Some v \<Rightarrow> v)"

definition optCustomPriceKeywords :: "DetectionOptions \<Rightarrow> string list" where
  "optCustomPriceKeywords options = (case customPriceKeywords options of None \<Rightarrow> [] | Some v \<Rightarrow> v)"

definition COST_PRICE_KEYWORDS :: "string list" where
  "COST_PRICE_KEYWORDS =
     [''cost'', ''price'', ''wholesale'', ''buy'', ''supplier'', ''purchase'', ''unit cost'',
      ''base price'', ''price for carton qty'', ''price for carton'', ''carton price'',
      ''price per carton'', ''unit price'', ''selling price'', ''list price'', ''carton'',
      ''qty'', ''amount'', ''value'', ''rate'']"

text \<open>\<^verbatim>\<open>a < x\<close> and \<^verbatim>\<open>a >= x\<close> for a finite \<open>a\<close> and any number \<open>x\<close>.\<close>

fun lt_num :: "rat \<Rightarrow> jsnum \<Rightarrow> bool" where
  "lt_num a (Num b) = (a < b)"
| "lt_num a PosInf = True"
| "lt_num a _ = False"

fun ge_num :: "rat \<Rightarrow> jsnum \<Rightarrow> bool" where
  "ge_num a (Num b) = (b \<le> a)"
| "ge_num a NegInf = True"
| "ge_num a _ = False"

definition createLowConfidenceResult :: "int \<Rightarrow> DetectionMethod \<Rightarrow> DetectionResult" where
  "createLowConfidenceResult i m =
     \<lparr>columnIndex = i, confidence = 0, detectionMethod = m, alternativeColumns = None\<rparr>"

subsection \<open>Exact header match\<close>

text \<open>
  The headers are strings, so \<^verbatim>\<open>String(headers[i] || '')\<close> is the header itself. The
  scan returns at the first header that equals a keyword.
\<close>

fun exactMatchFrom :: "string list \<Rightarrow> nat \<Rightarrow> string list \<Rightarrow> nat option" where
  "exactMatchFrom allKeywords i [] = None"
| "exactMatchFrom allKeywords i (h # hs) =
     (if trim (toLowerCase h) \<in> set (map toLowerCase allKeywords) then Some i
      else exactMatchFrom allKeywords (Suc i) hs)"

definition detectByHeaderExactMatch :: "string list \<Rightarrow> string list \<Rightarrow> DetectionResult" where
  "detectByHeaderExactMatch headers custom =
     (case exactMatchFrom (COST_PRICE_KEYWORDS @ custom) 0 headers of
        Some i \<Rightarrow>
          \<lparr>columnIndex = int i, confidence = 95 / 100,
           detectionMethod = header_exact_match, alternativeColumns = None\<rparr>
      | None \<Rightarrow> createLowConfidenceResult (- 1) header_exact_match)"

subsection \<open>Partial header match\<close>

text \<open>
  The score of one header is a number that may be NaN (\<open>None\<close>): an empty header
  includes only the empty keyword, and then \<^verbatim>\<open>keyword.length / header.length\<close> is
  \<^verbatim>\<open>0 / 0\<close>. \<^verbatim>\<open>Math.max\<close> is NaN as soon as one argument is.
\<close>

definition Math_max :: "rat option \<Rightarrow> rat option \<Rightarrow> rat option" where
  "Math_max a b = (case a of None \<Rightarrow> None | Some x \<Rightarrow> (case b of None \<Rightarrow> None | Some y \<Rightarrow> Some (max x y)))"

definition scoreStep :: "string \<Rightarrow> rat option \<Rightarrow> string \<Rightarrow> rat option" where
  "scoreStep header score keyword =
     (if includes_js header (toLowerCase keyword) then
        (let baseScore =
               (if header = [] then None
                else Some (of_nat (length keyword) / of_nat (length header)));
             positionBonus = (if indexOf header (toLowerCase keyword) = Some 0 then 2 / 10 else 0)
         in Math_max score (map_option (\<lambda>b. b + positionBonus) baseScore))
      else score)"

definition headerScore :: "string list \<Rightarrow> string \<Rightarrow> rat option" where
  "headerScore allKeywords h = foldl (scoreStep (trim (toLowerCase h))) (Some 0) allKeywords"

text \<open>The pairs \<^verbatim>\<open>{index, score}\<close> of the headers with a score above 0, from index \<open>i\<close> on.\<close>

fun partialMatches :: "string list \<Rightarrow> nat \<Rightarrow> string list \<Rightarrow> (nat \<times> rat) list" where
  "partialMatches allKeywords i [] = []"
| "partialMatches allKeywords i (h # hs) =
     (case headerScore allKeywords h of
        Some sc \<Rightarrow> (if 0 < sc then [(i, sc)] else [])
      | None \<Rightarrow> [])
     @ partialMatches allKeywords (Suc i) hs"

text \<open>\<^verbatim>\<open>sort((a, b) => b.score - a.score)\<close>: stable, highest score first.\<close>

definition sortByScore :: "(nat \<times> rat) list \<Rightarrow> (nat \<times> rat) list" where
  "sortByScore ms = sort_key (\<lambda>m. - snd m) ms"

definition detectByHeaderPartialMatch :: "string list \<Rightarrow> string list \<Rightarrow> DetectionResult" where
  "detectByHeaderPartialMatch headers custom =
     (let matches = partialMatches (COST_PRICE_KEYWORDS @ custom) 0 headers in
      if matches = [] then createLowConfidenceResult (- 1) header_partial_match
      else
        let sorted = sortByScore matches;
            bestMatch = hd sorted;
            baseConfidence = min (snd bestMatch * (8 / 10)) (85 / 100);
            competitionPenalty = (if 1 < length matches then 1 / 10 else 0)
        in \<lparr>columnIndex = int (fst bestMatch),
            confidence = max (baseConfidence - competitionPenalty) (1 / 10),
            detectionMethod = header_partial_match,
            alternativeColumns = Some (map (\<lambda>m. int (fst m)) (take 2 (drop 1 sorted)))\<rparr>)"

subsection \<open>Numeric analysis of a column\<close>

record NumericAnalysis =
  isNumeric :: bool
  score :: rat

text \<open>
  The values are positive numbers. With an infinity among them the maximum or the
  minimum is infinite and one of the first two tests fails; otherwise the sorted list
  gives the finite minimum and maximum.
\<close>

definition finiteValues :: "jsnum list \<Rightarrow> rat list" where
  "finiteValues values = concat (map (\<lambda>v. case v of Num q \<Rightarrow> [q] | _ \<Rightarrow> []) values)"

definition hasReasonablePriceRange :: "jsnum list \<Rightarrow> bool" where
  "hasReasonablePriceRange values =
     (if values = [] then False
      else if \<not> list_all isFinite values then False
      else
        let sorted = sort (finiteValues values);
            mn = hd sorted;
            mx = last sorted
        in 1 / 100 \<le> mn \<and> mx \<le> 1000000 \<and> mx / max mn (1 / 100) \<le> 10000)"

definition precisionOf :: "(rat \<Rightarrow> string) \<Rightarrow> jsnum \<Rightarrow> nat" where
  "precisionOf fmt v =
     (let str = numToString fmt v
      in case indexOf str ''.'' of None \<Rightarrow> 0 | Some decimalIndex \<Rightarrow> length str - decimalIndex - 1)"

definition hasConsistentDecimalPrecision :: "(rat \<Rightarrow> string) \<Rightarrow> jsnum list \<Rightarrow> bool" where
  "hasConsistentDecimalPrecision fmt values =
     (if values = [] then False
      else
        let precisions = map (precisionOf fmt) values;
            reasonablePrecisions = filter (\<lambda>p. 0 \<le> p \<and> p \<le> 3) precisions
        in 8 / 10 \<le> (of_nat (length reasonablePrecisions) :: rat) / of_nat (length precisions))"

definition numbersOf :: "cell list \<Rightarrow> jsnum list" where
  "numbersOf columnData =
     concat (map (\<lambda>v. case v of CNum n \<Rightarrow> (if isNaN n then [] else [n]) | _ \<Rightarrow> []) columnData)"

definition analyzeNumericColumn :: "(rat \<Rightarrow> string) \<Rightarrow> cell list \<Rightarrow> NumericAnalysis" where
  "analyzeNumericColumn fmt columnData =
     (let nonNullValues = numbersOf columnData in
      if length nonNullValues = 0 then \<lparr>isNumeric = False, score = 0\<rparr>
      else
        let totalValues = length (filter (\<lambda>v. v \<noteq> CNull) columnData);
            numericRatio = (of_nat (length nonNullValues) :: rat) / of_nat (max totalValues 1)
        in if numericRatio < 5 / 1000 then \<lparr>isNumeric = False, score = 0\<rparr>
           else
             let positiveValues = filter gt0 nonNullValues;
                 s0 = numericRatio * (4 / 10);
                 s1 = (if hasReasonablePriceRange positiveValues then s0 + 3 / 10 else s0);
                 s2 = (if hasConsistentDecimalPrecision fmt positiveValues then s1 + 2 / 10 else s1);
                 s3 = (if length positiveValues = length nonNullValues \<and> 0 < length positiveValues
                       then s2 + 1 / 10 else s2)
             in \<lparr>isNumeric = True, score = min s3 1\<rparr>)"

text \<open>\<^verbatim>\<open>rows.map(row => row[colIndex])\<close>\<close>

definition columnOf :: "ExcelRow list \<Rightarrow> nat \<Rightarrow> cell list" where
  "columnOf rows colIndex = map (\<lambda>row. cellAt row (int colIndex)) rows"

subsection \<open>Data patterns, position heuristics, forced detection\<close>

definition headerBonus :: "string \<Rightarrow> rat" where
  "headerBonus h =
     (if list_ex (\<lambda>keyword. includes_js (toLowerCase h) (toLowerCase keyword)) COST_PRICE_KEYWORDS
      then 3 / 10 else 0)"

definition numericColumnsOf :: "(rat \<Rightarrow> string) \<Rightarrow> string list \<Rightarrow> ExcelRow list \<Rightarrow> (nat \<times> rat) list" where
  "numericColumnsOf fmt headers rows =
     concat (map (\<lambda>colIndex.
        let numericAnalysis = analyzeNumericColumn fmt (columnOf rows colIndex)
        in if isNumeric numericAnalysis \<and> 5 / 10 < score numericAnalysis
           then [(colIndex, score numericAnalysis + headerBonus (headers ! colIndex))]
           else []) [0..<length headers])"

definition detectByDataPatterns :: "(rat \<Rightarrow> string) \<Rightarrow> string list \<Rightarrow> ExcelRow list \<Rightarrow> DetectionResult" where
  "detectByDataPatterns fmt headers rows =
     (let numericColumns = numericColumnsOf fmt headers rows in
      if numericColumns = [] then createLowConfidenceResult (- 1) data_pattern_match
      else
        let sorted = sortByScore numericColumns;
            bestColumn = hd sorted
        in \<lparr>columnIndex = int (fst bestColumn),
            confidence = min (snd bestColumn * (75 / 100)) (8 / 10),
            detectionMethod = data_pattern_match,
            alternativeColumns = Some (map (\<lambda>c. int (fst c)) (take 2 (drop 1 sorted)))\<rparr>)"

fun positionScan :: "(rat \<Rightarrow> string) \<Rightarrow> string list \<Rightarrow> ExcelRow list \<Rightarrow> nat list \<Rightarrow> nat option" where
  "positionScan fmt headers rows [] = None"
| "positionScan fmt headers rows (position # rest) =
     (if position < length headers
         \<and> isNumeric (analyzeNumericColumn fmt (columnOf rows position))
         \<and> 1 / 100 < score (analyzeNumericColumn fmt (columnOf rows position))
      then Some position
      else positionScan fmt headers rows rest)"

definition detectByPositionHeuristics :: "(rat \<Rightarrow> string) \<Rightarrow> string list \<Rightarrow> ExcelRow list \<Rightarrow> DetectionResult" where
  "detectByPositionHeuristics fmt headers rows =
     (case positionScan fmt headers rows [1, 2, 3, 4, 5] of
        Some position \<Rightarrow>
          \<lparr>columnIndex = int position, confidence = 4 / 10,
           detectionMethod = position_heuristic, alternativeColumns = None\<rparr>
      | None \<Rightarrow> createLowConfidenceResult (- 1) position_heuristic)"

text \<open>The loop of \<^verbatim>\<open>forceDetectBestNumericColumn\<close> over the pair (bestColumn, bestScore).\<close>

definition forceStep :: "(rat \<Rightarrow> string) \<Rightarrow> ExcelRow list \<Rightarrow> int \<times> rat \<Rightarrow> nat \<Rightarrow> int \<times> rat" where
  "forceStep fmt rows best i =
     (let analysis = analyzeNumericColumn fmt (columnOf rows i)
      in if isNumeric analysis \<and> snd best < score analysis then (int i, score analysis) else best)"

definition forceDetectBestNumericColumn ::
  "(rat \<Rightarrow> string) \<Rightarrow> string list \<Rightarrow> ExcelRow list \<Rightarrow> DetectionResult option" where
  "forceDetectBestNumericColumn fmt headers rows =
     (let best = foldl (forceStep fmt rows) (- 1, 0) [0..<length headers] in
      if 0 \<le> fst best
      then Some \<lparr>columnIndex = fst best, confidence = min (snd best * (5 / 10)) (4 / 10),
                 detectionMethod = forced_numeric, alternativeColumns = None\<rparr>
      else None)"

subsection \<open>The detection cascade\<close>

text \<open>One round of the first loop: a result at or above the threshold replaces the best
  one only when its confidence is strictly higher.\<close>

definition keepBest :: "jsnum \<Rightarrow> DetectionResult option \<Rightarrow> DetectionResult \<Rightarrow> DetectionResult option" where
  "keepBest threshold bestResult result =
     (if ge_num (confidence result) threshold then
        (case bestResult of
           None \<Rightarrow> Some result
         | Some b \<Rightarrow> if confidence b < confidence result then Some result else bestResult)
      else bestResult)"

text \<open>One round of the fallback loop, with its fixed strict threshold 0.1.\<close>

definition keepBestFallback :: "DetectionResult option \<Rightarrow> DetectionResult \<Rightarrow> DetectionResult option" where
  "keepBestFallback bestResult result =
     (if 1 / 10 < confidence result then
        (case bestResult of
           None \<Rightarrow> Some result
         | Some b \<Rightarrow> if confidence b < confidence result then Some result else bestResult)
      else bestResult)"

definition detectCostPriceColumn ::
  "(rat \<Rightarrow> string) \<Rightarrow> string list \<Rightarrow> ExcelRow list \<Rightarrow> DetectionOptions \<Rightarrow> DetectionResult" where
  "detectCostPriceColumn fmt headers rows options =
     (if length headers = 0 then createLowConfidenceResult (- 1) header_exact_match
      else if lt_num (of_nat (length rows)) (optRequiredDataRows options)
      then createLowConfidenceResult (- 1) header_exact_match
      else
        let custom = optCustomPriceKeywords options;
            strategies =
              [detectByHeaderExactMatch headers custom,
               detectByHeaderPartialMatch headers custom,
               detectByDataPatterns fmt headers rows,
               detectByPositionHeuristics fmt headers rows];
            bestResult = foldl (keepBest (optMinConfidence options)) None strategies
        in case bestResult of
             Some r \<Rightarrow> r
           | None \<Rightarrow>
               (let fallbackStrategies =
                      [detectByHeaderPartialMatch headers custom,
                       detectByDataPatterns fmt headers rows,
                       detectByPositionHeuristics fmt headers rows]
                in case foldl keepBestFallback None fallbackStrategies of
                     Some r \<Rightarrow> r
                   | None \<Rightarrow>
                       (case forceDetectBestNumericColumn fmt headers rows of
                          Some r \<Rightarrow> r
                        | None \<Rightarrow> createLowConfidenceResult (- 1) header_exact_match)))"

definition wellScored :: "DetectionResult \<Rightarrow> bool" where
  "wellScored r =
     (0 \<le> confidence r \<and> confidence r \<le> 1 \<and> (columnIndex r = - 1 \<longleftrightarrow> confidence r = 0))"

section \<open>The markup service: validation\<close>

record MarkupConfiguration =
  percentages :: "jsnum list"
  decimalPlaces :: jsnum
  currencySymbol :: "string option"

text \<open>The field \<^verbatim>\<open>columnIndex\<close> of a markup column is \<open>columnIndex_mc\<close> here.\<close>

record MarkupColumn =
  percentage :: jsnum
  columnIndex_mc :: nat
  header :: string

text \<open>
  A \<^verbatim>\<open>ProcessingError\<close> by its code; the message is a fixed text for each code, with
  the offending values put in.
\<close>

datatype CostColumnProblem = NoDataRows | NoData | TooFewValid rat

datatype ProcessingError =
  INVALID_DATA_FORMAT | EMPTY_DATA | INVALID_HEADERS
  | INVALID_COST_COLUMN_INDEX int nat
  | INVALID_MARKUP_PERCENTAGES
  | INVALID_MARKUP_PERCENTAGE jsnum
  | INVALID_DECIMAL_PLACES
  | INVALID_COST_COLUMN CostColumnProblem

text \<open>\<^verbatim>\<open>x > 10\<close>.\<close>

fun gt10 :: "jsnum \<Rightarrow> bool" where
  "gt10 (Num q) = (10 < q)"
| "gt10 PosInf = True"
| "gt10 _ = False"

text \<open>
  \<^verbatim>\<open>validateInputs\<close>; \<open>None\<close> is \<^verbatim>\<open>{ isValid: true }\<close>. The cost column index is an
  integer of the model. The data and the percentages are arrays by their types, so the
  two \<^verbatim>\<open>Array.isArray\<close> tests and the \<^verbatim>\<open>typeof\<close> tests always pass.
\<close>

definition validateInputs :: "ExcelSheet \<Rightarrow> int \<Rightarrow> MarkupConfiguration \<Rightarrow> ProcessingError option" where
  "validateInputs data costColumnIndex config =
     (case data of
        [] \<Rightarrow> Some EMPTY_DATA
      | headers # _ \<Rightarrow>
          if length headers = 0 then Some INVALID_HEADERS
          else if costColumnIndex < 0 \<or> int (length headers) \<le> costColumnIndex
          then Some (INVALID_COST_COLUMN_INDEX costColumnIndex (length headers - 1))
          else if length (percentages config) = 0 then Some INVALID_MARKUP_PERCENTAGES
          else
            (case find (\<lambda>p. isNaN p \<or> lt0 p) (percentages config) of
               Some p \<Rightarrow> Some (INVALID_MARKUP_PERCENTAGE p)
             | None \<Rightarrow>
                 if lt0 (decimalPlaces config) \<or> gt10 (decimalPlaces config)
                 then Some INVALID_DECIMAL_PLACES
                 else None))"

definition isValidCostValue :: "cell \<Rightarrow> bool" where
  "isValidCostValue v =
     (case v of
        CNull \<Rightarrow> False
      | CUndef \<Rightarrow> False
      | CNum n \<Rightarrow> \<not> isNaN n \<and> isFinite n \<and> ge0 n
      | CStr s \<Rightarrow> (case parseNumericValue s of None \<Rightarrow> False | Some parsed \<Rightarrow> ge0 parsed)
      | CDate _ \<Rightarrow> False
      | CBool _ \<Rightarrow> False)"

definition validateCostColumn :: "ExcelRow list \<Rightarrow> int \<Rightarrow> CostColumnProblem option" where
  "validateCostColumn dataRows costColumnIndex =
     (if length dataRows = 0 then Some NoDataRows
      else
        let counted = filter (\<lambda>row. costColumnIndex < int (length row)) dataRows;
            totalRows = length counted;
            validCostValues = length (filter (\<lambda>row. isValidCostValue (cellAt row costColumnIndex)) counted)
        in if totalRows = 0 then Some NoData
           else if (of_nat validCostValues :: rat) / of_nat totalRows < 5 / 1000
           then Some (TooFewValid (of_nat validCostValues / of_nat totalRows))
           else None)"

text \<open>
  \<^verbatim>\<open>generateMarkupHeader\<close>: \<^verbatim>\<open>toString\<close> for a whole percentage, \<^verbatim>\<open>toFixed(1)\<close> otherwise.
  Both print a finite number through a parameter (\<open>fmt\<close>, \<open>fixed1\<close>); a percentage
  that is not finite is not whole, and \<^verbatim>\<open>toFixed\<close> prints its name.
\<close>

definition generateMarkupHeader ::
  "(rat \<Rightarrow> string) \<Rightarrow> (rat \<Rightarrow> string) \<Rightarrow> jsnum \<Rightarrow> string option \<Rightarrow> string" where
  "generateMarkupHeader fmt fixed1 p symbol =
     (let percentageStr =
            (case p of
               Num q \<Rightarrow> if q = of_int \<lfloor>q\<rfloor> then fmt q else fixed1 q
             | _ \<Rightarrow> numToString fmt p)
      in (case symbol of None \<Rightarrow> [] | Some sy \<Rightarrow> sy) @ percentageStr @ ''% Markup'')"

definition calculateMarkupColumns ::
  "(rat \<Rightarrow> string) \<Rightarrow> (rat \<Rightarrow> string) \<Rightarrow> ExcelSheet \<Rightarrow> int \<Rightarrow> MarkupConfiguration
     \<Rightarrow> ProcessingError + MarkupColumn list" where
  "calculateMarkupColumns fmt fixed1 data costColumnIndex config =
     (case validateInputs data costColumnIndex config of
        Some e \<Rightarrow> Inl e
      | None \<Rightarrow>
          (case data of
             [] \<Rightarrow> Inl EMPTY_DATA
           | headers # dataRows \<Rightarrow>
               let markupColumns =
                     map (\<lambda>(k, p). \<lparr>percentage = p, columnIndex_mc = length headers + k,
                                    header = generateMarkupHeader fmt fixed1 p (currencySymbol config)\<rparr>)
                       (enumerate 0 (percentages config))
               in case validateCostColumn dataRows costColumnIndex of
                    Some problem \<Rightarrow> Inl (INVALID_COST_COLUMN problem)
                  | None \<Rightarrow> Inr markupColumns))"

section \<open>The markup service: pruning columns and applying the markup\<close>

definition nonEmptyCell :: "cell \<Rightarrow> bool" where
  "nonEmptyCell v = (v \<noteq> CNull \<and> v \<noteq> CUndef \<and> v \<noteq> CStr [])"

definition maxColumns :: "ExcelSheet \<Rightarrow> nat" where
  "maxColumns data = foldr max (map length data) 0"

definition isImportantHeader :: "(rat \<Rightarrow> string) \<Rightarrow> cell \<Rightarrow> bool" where
  "isImportantHeader fmt h =
     (let headerStr = toLowerCase (String_js fmt (orEmpty h))
      in includes_js headerStr ''price'' \<or> includes_js headerStr ''cost''
         \<or> includes_js headerStr ''unit'' \<or> includes_js headerStr ''amount''
         \<or> includes_js headerStr ''value'' \<or> includes_js headerStr ''carton'')"

definition columnsToKeep :: "(rat \<Rightarrow> string) \<Rightarrow> ExcelSheet \<Rightarrow> nat list" where
  "columnsToKeep fmt data =
     filter (\<lambda>colIndex.
        list_ex (\<lambda>row. nonEmptyCell (cellAt row (int colIndex))) data
        \<or> isImportantHeader fmt (cellAt (hd data) (int colIndex)))
       [0..<maxColumns data]"

definition removeEmptyColumns :: "(rat \<Rightarrow> string) \<Rightarrow> ExcelSheet \<Rightarrow> ExcelSheet" where
  "removeEmptyColumns fmt data =
     (if length data = 0 then data
      else map (\<lambda>row. map (\<lambda>colIndex. orEmpty (cellAt row (int colIndex))) (columnsToKeep fmt data)) data)"

text \<open>\<^verbatim>\<open>findIndex\<close>, with \<open>None\<close> for \<^verbatim>\<open>-1\<close>.\<close>

fun findIndex :: "('a \<Rightarrow> bool) \<Rightarrow> 'a list \<Rightarrow> nat option" where
  "findIndex P [] = None"
| "findIndex P (x # xs) = (if P x then Some 0 else map_option Suc (findIndex P xs))"

definition priceKeywords :: "string list" where
  "priceKeywords =
     [''unit price'', ''price for carton'', ''price for'', ''unit cost'', ''selling price'',
      ''list price'', ''price'', ''cost'', ''amount'', ''value'']"

definition headerText :: "(rat \<Rightarrow> string) \<Rightarrow> cell \<Rightarrow> string" where
  "headerText fmt h = toLowerCase (String_js fmt (orEmpty h))"

definition isExcludedHeader :: "(rat \<Rightarrow> string) \<Rightarrow> cell \<Rightarrow> bool" where
  "isExcludedHeader fmt h =
     (includes_js (headerText fmt h) ''code'' \<or> includes_js (headerText fmt h) ''description''
      \<or> includes_js (headerText fmt h) ''size'' \<or> includes_js (headerText fmt h) ''colour''
      \<or> includes_js (headerText fmt h) ''availability'' \<or> includes_js (headerText fmt h) ''effective''
      \<or> includes_js (headerText fmt h) ''remark'')"

text \<open>The first loop of \<^verbatim>\<open>findBestPriceColumn\<close>: the keywords in order, each against all headers.\<close>

fun keywordSearch :: "(rat \<Rightarrow> string) \<Rightarrow> cell list \<Rightarrow> string list \<Rightarrow> nat option" where
  "keywordSearch fmt headers [] = None"
| "keywordSearch fmt headers (keyword # rest) =
     (case findIndex (\<lambda>h. includes_js (headerText fmt h) (toLowerCase keyword)) headers of
        Some index \<Rightarrow> Some index
      | None \<Rightarrow> keywordSearch fmt headers rest)"

definition findBestPriceColumnWith :: "string list \<Rightarrow> (rat \<Rightarrow> string) \<Rightarrow> cell list \<Rightarrow> nat" where
  "findBestPriceColumnWith keywords fmt headers =
     (case keywordSearch fmt headers keywords of
        Some index \<Rightarrow> index
      | None \<Rightarrow>
          (case findIndex (\<lambda>h. \<not> isExcludedHeader fmt h) headers of
             Some i \<Rightarrow> i
           | None \<Rightarrow> 0))"

definition findBestPriceColumn :: "(rat \<Rightarrow> string) \<Rightarrow> cell list \<Rightarrow> nat" where
  "findBestPriceColumn fmt headers = findBestPriceColumnWith priceKeywords fmt headers"

text \<open>
  The search as the specification words it, with nine keywords.
\<close>

definition specPriceKeywords :: "string list" where
  "specPriceKeywords =
     [''unit price'', ''price for carton'', ''unit cost'', ''selling price'',
      ''list price'', ''price'', ''cost'', ''amount'', ''value'']"

definition findBestPriceColumn_spec :: "(rat \<Rightarrow> string) \<Rightarrow> cell list \<Rightarrow> nat" where
  "findBestPriceColumn_spec fmt headers = findBestPriceColumnWith specPriceKeywords fmt headers"

text \<open>
  \<^verbatim>\<open>a === b\<close> on cells: NaN differs from itself. Two dates are compared by their text
  (JavaScript compares the objects).
\<close>

definition strictEq :: "cell \<Rightarrow> cell \<Rightarrow> bool" where
  "strictEq a b = (a = b \<and> a \<noteq> CNum NaN)"

definition adjustColumnIndex :: "(rat \<Rightarrow> string) \<Rightarrow> cell list \<Rightarrow> cell list \<Rightarrow> int \<Rightarrow> nat" where
  "adjustColumnIndex fmt originalHeaders cleanedHeaders originalIndex =
     (if int (length originalHeaders) \<le> originalIndex then findBestPriceColumn fmt cleanedHeaders
      else
        (case findIndex (\<lambda>h. strictEq h (cellAt originalHeaders originalIndex)) cleanedHeaders of
           None \<Rightarrow> findBestPriceColumn fmt cleanedHeaders
         | Some newIndex \<Rightarrow>
             let headerStr = toLowerCase (String_js fmt (orEmpty (cellAt cleanedHeaders (int newIndex))))
             in if includes_js headerStr ''price'' \<or> includes_js headerStr ''cost''
                   \<or> includes_js headerStr ''unit''
                then newIndex
                else findBestPriceColumn fmt cleanedHeaders))"

text \<open>The cell pushed for one markup column: the price, or \<^verbatim>\<open>''\<close> for \<^verbatim>\<open>null\<close>.\<close>

definition markupCell :: "cell \<Rightarrow> jsnum \<Rightarrow> MarkupColumn \<Rightarrow> cell" where
  "markupCell costValue places markupColumn =
     (case calculateSingleMarkup costValue (percentage markupColumn) places of
        None \<Rightarrow> CStr []
      | Some markupPrice \<Rightarrow> CNum markupPrice)"

definition applyMarkupCalculations ::
  "(rat \<Rightarrow> string) \<Rightarrow> ExcelSheet \<Rightarrow> int \<Rightarrow> MarkupColumn list \<Rightarrow> MarkupConfiguration \<Rightarrow> ExcelSheet" where
  "applyMarkupCalculations fmt data costColumnIndex markupColumns config =
     (case data of
        [] \<Rightarrow> data
      | headerRow # dataRows \<Rightarrow>
          let cleanedData = removeEmptyColumns fmt (headerRow # dataRows);
              cleanedHeaderRow = hd cleanedData;
              cleanedDataRows = tl cleanedData;
              adjustedCostColumnIndex = adjustColumnIndex fmt headerRow cleanedHeaderRow costColumnIndex;
              newHeaders = cleanedHeaderRow @ map (\<lambda>col. CStr (header col)) markupColumns;
              newDataRows =
                map (\<lambda>row. row @ map (markupCell (cellAt row (int adjustedCostColumnIndex))
                                         (decimalPlaces config)) markupColumns)
                  cleanedDataRows
          in newHeaders # newDataRows)"

section \<open>The parsing service: locating the header row\<close>

definition headerKeywords :: "string list" where
  "headerKeywords =
     [''name'', ''code'', ''id'', ''description'', ''item'', ''product'', ''style'',
      ''price'', ''cost'', ''unit'', ''amount'', ''value'', ''rate'', ''total'',
      ''qty'', ''quantity'', ''stock'', ''availability'', ''carton'', ''pack'',
      ''size'', ''colour'', ''color'', ''brand'', ''category'', ''type'', ''model'',
      ''supplier'', ''vendor'', ''manufacturer'', ''sku'', ''barcode'', ''ref'']"

text \<open>
  \<^verbatim>\<open>!isNaN(Number(s))\<close> for a trimmed string: the empty string is 0; otherwise the whole
  string is a binary, octal or hexadecimal integer literal, or a signed decimal literal.
\<close>

definition isHexDigit :: "char \<Rightarrow> bool" where
  "isHexDigit c =
     (isDigit c \<or> (97 \<le> (of_char c :: nat) \<and> (of_char c :: nat) \<le> 102)
      \<or> (65 \<le> (of_char c :: nat) \<and> (of_char c :: nat) \<le> 70))"

definition radixLiteral :: "string \<Rightarrow> bool" where
  "radixLiteral s =
     (case s of
        z # x # ds \<Rightarrow>
          z = CHR ''0'' \<and> ds \<noteq> [] \<and>
          ((x = CHR ''x'' \<or> x = CHR ''X'') \<and> list_all isHexDigit ds
           \<or> (x = CHR ''o'' \<or> x = CHR ''O'') \<and> list_all (\<lambda>c. isDigit c \<and> c \<noteq> CHR ''8'' \<and> c \<noteq> CHR ''9'') ds
           \<or> (x = CHR ''b'' \<or> x = CHR ''B'') \<and> list_all (\<lambda>c. c = CHR ''0'' \<or> c = CHR ''1'') ds)
      | _ \<Rightarrow> False)"

definition exponentOrEnd :: "string \<Rightarrow> bool" where
  "exponentOrEnd r =
     (case r of
        [] \<Rightarrow> True
      | c # r1 \<Rightarrow>
          (c = CHR ''e'' \<or> c = CHR ''E'') \<and>
          (let ds = (case r1 of [] \<Rightarrow> [] | d # r2 \<Rightarrow> if d = CHR ''+'' \<or> d = CHR ''-'' then r2 else r1)
           in ds \<noteq> [] \<and> list_all isDigit ds))"

definition decimalLiteral :: "string \<Rightarrow> bool" where
  "decimalLiteral s =
     (let u = (case s of [] \<Rightarrow> [] | c # r \<Rightarrow> if c = CHR ''+'' \<or> c = CHR ''-'' then r else s);
          ip = takeWhile isDigit u;
          r1 = dropWhile isDigit u;
          fp = (case r1 of [] \<Rightarrow> [] | c # r \<Rightarrow> if c = CHR ''.'' then takeWhile isDigit r else []);
          r2 = (case r1 of [] \<Rightarrow> [] | c # r \<Rightarrow> if c = CHR ''.'' then dropWhile isDigit r else r1)
      in u = ''Infinity'' \<or> ((ip \<noteq> [] \<or> fp \<noteq> []) \<and> exponentOrEnd r2))"

definition isNumericText :: "string \<Rightarrow> bool" where
  "isNumericText s = (trim s = [] \<or> radixLiteral (trim s) \<or> decimalLiteral (trim s))"

text \<open>The pattern \<^verbatim>\<open>/^\d{1,2}\/\d{1,2}\/\d{2,4}$/\<close>.\<close>

definition isDateText :: "string \<Rightarrow> bool" where
  "isDateText s =
     (let d1 = takeWhile isDigit s; r1 = dropWhile isDigit s;
          d2 = takeWhile isDigit (drop 1 r1); r2 = dropWhile isDigit (drop 1 r1);
          d3 = drop 1 r2
      in 1 \<le> length d1 \<and> length d1 \<le> 2 \<and> take 1 r1 = ''/''
         \<and> 1 \<le> length d2 \<and> length d2 \<le> 2 \<and> take 1 r2 = ''/''
         \<and> 2 \<le> length d3 \<and> length d3 \<le> 4 \<and> list_all isDigit d3)"

text \<open>The contribution of one non-empty cell to the score of its row.\<close>

definition cellPoints :: "(rat \<Rightarrow> string) \<Rightarrow> cell \<Rightarrow> int" where
  "cellPoints fmt c =
     (let cellStr = trim (toLowerCase (String_js fmt c))
      in (if list_ex (\<lambda>keyword. includes_js cellStr keyword) headerKeywords then 10 else 0)
         + (if includes_js cellStr ''price'' \<or> includes_js cellStr ''cost'' then 15 else 0)
         + (if includes_js cellStr ''unit'' \<and> (includes_js cellStr ''price'' \<or> includes_js cellStr ''cost'')
            then 20 else 0)
         - (if isNumericText cellStr \<or> isDateText cellStr then 5 else 0))"

definition matchesKeyword :: "(rat \<Rightarrow> string) \<Rightarrow> cell \<Rightarrow> bool" where
  "matchesKeyword fmt c =
     list_ex (\<lambda>keyword. includes_js (trim (toLowerCase (String_js fmt c))) keyword) headerKeywords"

definition rowScore :: "(rat \<Rightarrow> string) \<Rightarrow> cell list \<Rightarrow> int" where
  "rowScore fmt row =
     (let cells = filter nonEmptyCell row;
          nonNullCount = int (length cells);
          headerMatchCount = int (length (filter (matchesKeyword fmt) cells));
          points = sum_list (map (cellPoints fmt) cells)
      in points
         + (if 3 \<le> nonNullCount then nonNullCount * 2 else 0)
         + (if 2 \<le> headerMatchCount then headerMatchCount * 5 else 0))"

text \<open>
  The loop over the rows, on the pair (bestHeaderRow, bestScore); an empty row is
  skipped by \<^verbatim>\<open>continue\<close>.
\<close>

fun headerScan :: "(rat \<Rightarrow> string) \<Rightarrow> nat \<Rightarrow> int \<times> int \<Rightarrow> cell list list \<Rightarrow> int \<times> int" where
  "headerScan fmt rowIndex best [] = best"
| "headerScan fmt rowIndex best (row # rows) =
     headerScan fmt (Suc rowIndex)
       (if length row = 0 then best
        else if snd best < rowScore fmt row then (int rowIndex, rowScore fmt row)
        else best)
       rows"

definition findHeaderRow :: "(rat \<Rightarrow> string) \<Rightarrow> cell list list \<Rightarrow> int" where
  "findHeaderRow fmt rawData =
     (let maxRowsToCheck = min 10 (length rawData)
      in fst (headerScan fmt 0 (- 1, 0) (take maxRowsToCheck rawData)))"

section \<open>A number format for the examples\<close>

text \<open>
  The examples need a concrete number format. \<open>integerFormat\<close> prints an integer
  below 1e21 as \<^verbatim>\<open>toString\<close> does, and the examples apply it to such integers only.
\<close>

fun natDigits :: "nat \<Rightarrow> string" where
  "natDigits n =
     (if n < 10 then [char_of (48 + n)] else natDigits (n div 10) @ [char_of (48 + n mod 10)])"

definition integerFormat :: "rat \<Rightarrow> string" where
  "integerFormat q = (if q < 0 then CHR ''-'' # natDigits (nat \<lfloor>- q\<rfloor>) else natDigits (nat \<lfloor>q\<rfloor>))"

text \<open>
  \<open>oneDecimalFormat\<close> is \<^verbatim>\<open>toFixed(1)\<close> on the rationals of the model: the nearest
  multiple of one tenth, the larger one on a tie, with the sign of the number.
\<close>

definition oneDecimalFormat :: "rat \<Rightarrow> string" where
  "oneDecimalFormat q =
     (let n = nat \<lfloor>\<bar>q\<bar> * 10 + 1 / 2\<rfloor>
      in (if q < 0 then ''-'' else []) @ natDigits (n div 10) @ ''.'' @ natDigits (n mod 10))"


section \<open>Evaluation rules\<close>

declare logUp.simps [simp del] logDown.simps [simp del] shortestFrom.simps [simp del]

lemma floor_numeral_div_rat:
  "\<lfloor>(numeral a / numeral b :: rat)\<rfloor> = numeral a div numeral b"
  using floor_divide_of_int_eq[of "numeral a" "numeral b", where ?'a = rat] by simp

lemma floor_one_div_rat:
  "\<lfloor>(1 / numeral b :: rat)\<rfloor> = 1 div numeral b"
  using floor_divide_of_int_eq[of 1 "numeral b", where ?'a = rat] by simp

lemmas parse_eval = parseNumericValue_def trim_def placeholders_def parseFloat_def
  unsignedLiteral_def exponentPart_def digitsVal_def digitVal_def pow10_def isSpace_def
  isDigit_def startsWith_def clean_def isCurrency_def includes_js_def isNaN_def isFinite_def
  nonNegative_def Let_def

lemmas double_eval = nearestDouble_def doubleOf_def doublePos_def shortest_def shortestFrom.simps
  floorLog_def logUp.simps logDown.simps roundHalfEven_def pow2_def pow10_def Let_def
  floor_numeral_div_rat floor_one_div_rat

lemmas markup_eval = calculateSingleMarkup_def numericCost_def isNaN_def isFinite_def
  toDecimalPlaces_def validPlaces_def roundHalfUp_def roundPrecision_def

lemmas str_eval = toLowerCase_def lowerChar_def char_of_eq_iff trim_def isSpace_def

lemmas header_eval = headerText_def orEmpty_def includes_js_def startsWith_def str_eval

lemmas score_eval = rowScore_def cellPoints_def matchesKeyword_def headerKeywords_def
  nonEmptyCell_def isNumericText_def radixLiteral_def decimalLiteral_def exponentOrEnd_def
  isDateText_def isDigit_def isHexDigit_def includes_js_def startsWith_def
  toLowerCase_def lowerChar_def char_of_eq_iff trim_def isSpace_def Let_def

lemmas prune_eval = removeEmptyColumns_def columnsToKeep_def maxColumns_def nonEmptyCell_def
  isImportantHeader_def orEmpty_def cellAt_def includes_js_def startsWith_def
  toLowerCase_def lowerChar_def char_of_eq_iff upt_rec[of _ "numeral n" for n] Let_def

section \<open>Rounding to decimal places\<close>

lemma floor_half_close:
  fixes x :: rat
  shows "\<bar>of_int \<lfloor>x + 1 / 2\<rfloor> - x\<bar> \<le> 1 / 2"
proof -
  have "of_int \<lfloor>x + 1 / 2\<rfloor> \<le> x + 1 / 2" by (rule of_int_floor_le)
  moreover have "x + 1 / 2 < of_int \<lfloor>x + 1 / 2\<rfloor> + 1"
    using floor_correct[of "x + 1 / 2"] by simp
  ultimately show ?thesis by linarith
qed

lemma roundHalfUp_zero: "roundHalfUp n 0 = 0"
  by (simp add: roundHalfUp_def floor_one_div_rat)

lemma roundHalfUp_integral: "\<exists>k::int. roundHalfUp n q * 10 ^ n = of_int k"
proof (cases "0 \<le> q")
  case True
  then have "roundHalfUp n q * 10 ^ n = of_int \<lfloor>q * 10 ^ n + 1 / 2\<rfloor>"
    by (simp add: roundHalfUp_def)
  then show ?thesis by blast
next
  case False
  then have "roundHalfUp n q * 10 ^ n = of_int (- \<lfloor>- q * 10 ^ n + 1 / 2\<rfloor>)"
    by (simp add: roundHalfUp_def)
  then show ?thesis by blast
qed

lemma roundHalfUp_close: "\<bar>roundHalfUp n q - q\<bar> \<le> 1 / (2 * 10 ^ n)"
proof -
  have pos: "(0::rat) < 10 ^ n" by simp
  have scale: "\<bar>r - q\<bar> \<le> 1 / (2 * 10 ^ n)"
    if "\<bar>r * 10 ^ n - q * 10 ^ n\<bar> \<le> 1 / 2" for r :: rat
  proof -
    have "\<bar>r - q\<bar> * 10 ^ n = \<bar>r * 10 ^ n - q * 10 ^ n\<bar>"
      by (simp add: abs_mult flip: left_diff_distrib)
    with that have "\<bar>r - q\<bar> * 10 ^ n \<le> 1 / 2" by simp
    then have "\<bar>r - q\<bar> \<le> (1 / 2) / 10 ^ n" using pos by (simp add: pos_le_divide_eq)
    then show ?thesis by simp
  qed
  show ?thesis
  proof (cases "0 \<le> q")
    case True
    have "\<bar>of_int \<lfloor>q * 10 ^ n + 1 / 2\<rfloor> - q * 10 ^ n\<bar> \<le> 1 / 2"
      by (rule floor_half_close)
    then show ?thesis using True by (intro scale) (simp add: roundHalfUp_def)
  next
    case False
    have "\<bar>of_int \<lfloor>- q * 10 ^ n + 1 / 2\<rfloor> - (- q * 10 ^ n)\<bar> \<le> 1 / 2"
      by (rule floor_half_close)
    then have "\<bar>- of_int \<lfloor>- q * 10 ^ n + 1 / 2\<rfloor> - q * 10 ^ n\<bar> \<le> (1 / 2 :: rat)"
      by linarith
    then show ?thesis using False by (intro scale) (simp add: roundHalfUp_def)
  qed
qed

section \<open>One markup price\<close>

lemma validPlaces_nat: "n \<le> 10 \<Longrightarrow> validPlaces (Num (of_nat n)) = Some n"
  by (simp add: validPlaces_def)

lemma markup_of_number:
  assumes "0 < C" "n \<le> 10"
  shows "calculateSingleMarkup (CNum (Num C)) (Num P) (Num (of_nat n))
           = Some (nearestDouble (roundHalfUp n
               (roundPrecision (C * roundPrecision (roundPrecision (P / 100) + 1)))))"
  using assms
  by (simp add: calculateSingleMarkup_def numericCost_def isNaN_def isFinite_def
      toDecimalPlaces_def validPlaces_nat)

lemma markup_of_zero: "calculateSingleMarkup (CNum (Num 0)) p d = Some (Num 0)"
  by (simp add: calculateSingleMarkup_def numericCost_def isNaN_def isFinite_def)

lemma markup_of_negative_number:
  "q < 0 \<Longrightarrow> calculateSingleMarkup (CNum (Num q)) p d = None"
  by (simp add: calculateSingleMarkup_def numericCost_def isNaN_def isFinite_def)

text \<open>
  C1, as stated, fails: Decimal.js rounds the product to 20 significant digits before
  \<^verbatim>\<open>toDecimalPlaces\<close> rounds it again. For the cost 1.5085567316252844 and the percentage
  1.09, both doubles, the exact product is 1.52499999999999999996, which rounds to 1.52
  at two places; the library first makes it 1.5250000000000000000, and the code returns
  1.53.
\<close>

theorem twenty_digits_counterexample:
  "calculateSingleMarkup (CNum (Num (15085567316252844 / 10 ^ 16))) (Num (109 / 100)) (Num 2)
     = Some (Num (153 / 100))
   \<and> roundHalfUp 2 (15085567316252844 / 10 ^ 16 * (1 + (109 / 100) / 100)) = 152 / 100
   \<and> nearestDouble (15085567316252844 / 10 ^ 16) = Num (15085567316252844 / 10 ^ 16)
   \<and> nearestDouble (109 / 100) = Num (109 / 100)"
  by (simp add: markup_eval double_eval)

text \<open>
  C1, amended. For a finite cost \<open>C > 0\<close> given as a number, a finite percentage \<open>P\<close>
  and \<open>n \<le> 10\<close> decimal places, \<^verbatim>\<open>calculateSingleMarkup\<close> returns the Number value of
  the Decimal.js result: the quotient \<open>P / 100\<close>, the sum with 1 and the product with
  \<open>C\<close>, each rounded to 20 significant digits, then rounded half up to \<open>n\<close> places.
  When the three intermediate results have at most 20 significant digits, this is the
  Number value of \<open>C * (1 + P / 100)\<close> rounded half up to \<open>n\<close> places, a multiple of
  \<open>10^-n\<close> at most half a unit of the last place away from the exact product. A cost of
  0 gives 0 whatever the percentage and the number of places.
\<close>

theorem calculateSingleMarkup_decimal:
  assumes "0 < C" and "n \<le> 10"
  shows "calculateSingleMarkup (CNum (Num C)) (Num P) (Num (of_nat n))
           = Some (nearestDouble (roundHalfUp n
               (roundPrecision (C * roundPrecision (roundPrecision (P / 100) + 1)))))
         \<and> (roundPrecision (P / 100) = P / 100
              \<and> roundPrecision (P / 100 + 1) = P / 100 + 1
              \<and> roundPrecision (C * (P / 100 + 1)) = C * (P / 100 + 1)
            \<longrightarrow> calculateSingleMarkup (CNum (Num C)) (Num P) (Num (of_nat n))
                  = Some (nearestDouble (roundHalfUp n (C * (1 + P / 100)))))
         \<and> (\<exists>k::int. roundHalfUp n (C * (1 + P / 100)) * 10 ^ n = of_int k)
         \<and> \<bar>roundHalfUp n (C * (1 + P / 100)) - C * (1 + P / 100)\<bar> \<le> 1 / (2 * 10 ^ n)
         \<and> calculateSingleMarkup (CNum (Num 0)) p d = Some (Num 0)"
proof -
  have "calculateSingleMarkup (CNum (Num C)) (Num P) (Num (of_nat n))
          = Some (nearestDouble (roundHalfUp n (C * (1 + P / 100))))"
    if "roundPrecision (P / 100) = P / 100 \<and> roundPrecision (P / 100 + 1) = P / 100 + 1
        \<and> roundPrecision (C * (P / 100 + 1)) = C * (P / 100 + 1)"
    using markup_of_number[OF assms, of P] that by (simp add: add.commute)
  then show ?thesis
    using markup_of_number[OF assms] markup_of_zero roundHalfUp_integral roundHalfUp_close
    by blast
qed

theorem calculateSingleMarkup_decimal_witness:
  "calculateSingleMarkup (CNum (Num 10)) (Num 10) (Num 2) = Some (Num 11)
   \<and> calculateSingleMarkup (CNum (Num 0)) (Num 10) (Num 2) = Some (Num 0)"
proof -
  have h: "roundPrecision (10 / 100) = 10 / 100 \<and> roundPrecision (10 / 100 + 1) = 10 / 100 + 1
           \<and> roundPrecision (10 * (10 / 100 + 1)) = 10 * (10 / 100 + 1)"
    by (simp add: roundPrecision_def double_eval)
  have c: "(0::rat) < 10" "(2::nat) \<le> 10" by simp_all
  from calculateSingleMarkup_decimal[OF c, of 10 "Num 10" "Num 2"] h
  have "calculateSingleMarkup (CNum (Num 10)) (Num 10) (Num (of_nat 2))
          = Some (nearestDouble (roundHalfUp 2 (10 * (1 + 10 / 100))))"
    and "calculateSingleMarkup (CNum (Num 0)) (Num 10) (Num 2) = Some (Num 0)"
    by blast+
  then show ?thesis by (simp add: roundHalfUp_def double_eval)
qed

section \<open>Parsing cell text\<close>

text \<open>
  C2. \<^verbatim>\<open>parseNumericValue\<close> on the four examples: the currency text parses to 1234.5 and
  the two placeholders to \<^verbatim>\<open>null\<close>, but \<^verbatim>\<open>"15%"\<close> gives 15, not 0.15: \<^verbatim>\<open>parseFloat\<close>
  reads the prefix \<^verbatim>\<open>15\<close> and the function returns before it looks for the percent sign.
  The division by 100 is reached only when the direct parse fails, as for \<^verbatim>\<open>"$15%"\<close>.
\<close>

theorem parseNumericValue_examples:
  "parseNumericValue ''$1,234.50'' = Some (Num (2469 / 2))
   \<and> parseNumericValue ''POA'' = None
   \<and> parseNumericValue ''N/A'' = None
   \<and> parseNumericValue ''15%'' = Some (Num 15)
   \<and> parseNumericValue ''$15%'' = Some (Num (15 / 100))"
  by (simp add: parse_eval double_eval)

lemma placeholders_NaN: "t \<in> set placeholders \<Longrightarrow> parseFloat t = NaN"
  by (auto simp: parse_eval)

lemma parse_negative_string:
  assumes "parseFloat (trim s) = Num q" "q < 0"
  shows "parseNumericValue s = Some (Num (- q))"
proof -
  have "trim s \<notin> set placeholders" using assms placeholders_NaN by fastforce
  moreover have "s \<noteq> []" using assms by (auto simp: parse_eval)
  ultimately show ?thesis using assms
    by (simp add: parseNumericValue_def isNaN_def isFinite_def nonNegative_def)
qed

text \<open>
  C10. A negative finite cost given as a number yields \<^verbatim>\<open>null\<close>. The same value given as
  text, that is, text that \<^verbatim>\<open>parseFloat\<close> reads as that negative number, is replaced by
  its absolute value in \<^verbatim>\<open>parseNumericValue\<close>, and \<^verbatim>\<open>calculateSingleMarkup\<close> returns for
  the text what it returns for the absolute value given as a number: a markup price,
  the Number value of the Decimal.js result for the absolute value.
\<close>

theorem negative_cost_asymmetry:
  assumes "q < 0" and "n \<le> 10"
  shows "calculateSingleMarkup (CNum (Num q)) (Num P) (Num (of_nat n)) = None
         \<and> (parseFloat (trim s) = Num q \<longrightarrow>
              parseNumericValue s = Some (Num \<bar>q\<bar>)
              \<and> calculateSingleMarkup (CStr s) (Num P) (Num (of_nat n))
                = calculateSingleMarkup (CNum (Num \<bar>q\<bar>)) (Num P) (Num (of_nat n))
              \<and> calculateSingleMarkup (CStr s) (Num P) (Num (of_nat n))
                = Some (nearestDouble (roundHalfUp n
                    (roundPrecision (\<bar>q\<bar> * roundPrecision (roundPrecision (P / 100) + 1))))))"
proof -
  have abs: "\<bar>q\<bar> = - q" "0 < - q" using assms(1) by simp_all
  have "parseNumericValue s = Some (Num (- q))
        \<and> calculateSingleMarkup (CStr s) (Num P) (Num (of_nat n))
          = calculateSingleMarkup (CNum (Num (- q))) (Num P) (Num (of_nat n))"
    if "parseFloat (trim s) = Num q"
    using parse_negative_string[OF that assms(1)]
    by (simp add: calculateSingleMarkup_def numericCost_def)
  then show ?thesis
    using markup_of_negative_number[OF assms(1)] markup_of_number[OF abs(2) assms(2)] abs(1)
    by simp
qed

theorem negative_cost_asymmetry_witness:
  "calculateSingleMarkup (CNum (Num (- 5))) (Num 10) (Num 2) = None
   \<and> parseFloat (trim ''-5'') = Num (- 5)
   \<and> calculateSingleMarkup (CStr ''-5'') (Num 10) (Num 2) = Some (Num (11 / 2))"
proof -
  have h: "parseFloat (trim ''-5'') = Num (- 5)" by (simp add: parse_eval double_eval)
  have q: "(- 5 :: rat) < 0" "(2::nat) \<le> 10" by simp_all
  from negative_cost_asymmetry[OF q, of 10 "''-5''"] h
  have "calculateSingleMarkup (CNum (Num (- 5))) (Num 10) (Num (of_nat 2)) = None"
    and "calculateSingleMarkup (CStr ''-5'') (Num 10) (Num (of_nat 2))
           = Some (nearestDouble (roundHalfUp 2
               (roundPrecision (\<bar>- 5\<bar> * roundPrecision (roundPrecision (10 / 100) + 1)))))"
    by blast+
  then show ?thesis using h by (simp add: roundHalfUp_def roundPrecision_def double_eval)
qed

section \<open>Detection: confidence and column index\<close>

lemma low_ok: "wellScored (createLowConfidenceResult (- 1) m)"
  by (simp add: wellScored_def createLowConfidenceResult_def)

lemma exact_ok: "wellScored (detectByHeaderExactMatch headers custom)"
  by (simp add: wellScored_def detectByHeaderExactMatch_def createLowConfidenceResult_def
      split: option.split)

lemma partial_arith:
  fixes s p :: rat
  assumes "0 \<le> p"
  shows "1 / 10 \<le> max (min (s * (8 / 10)) (85 / 100) - p) (1 / 10)"
    and "max (min (s * (8 / 10)) (85 / 100) - p) (1 / 10) \<le> 85 / 100"
  using assms by (auto simp: max_def min_def)

lemma partial_conf:
  "confidence (detectByHeaderPartialMatch headers custom) \<le> 85 / 100"
  using partial_arith(2)[of "1 / 10"] partial_arith(2)[of 0]
  by (simp add: detectByHeaderPartialMatch_def createLowConfidenceResult_def Let_def)

lemma partial_ok: "wellScored (detectByHeaderPartialMatch headers custom)"
proof (cases "partialMatches (COST_PRICE_KEYWORDS @ custom) 0 headers = []")
  case True
  then show ?thesis by (simp add: detectByHeaderPartialMatch_def low_ok)
next
  case False
  define p :: rat where
    "p = (if 1 < length (partialMatches (COST_PRICE_KEYWORDS @ custom) 0 headers) then 1 / 10 else 0)"
  define s where
    "s = snd (hd (sortByScore (partialMatches (COST_PRICE_KEYWORDS @ custom) 0 headers)))"
  have "0 \<le> p" by (simp add: p_def)
  from partial_arith[OF this, of s]
  have "0 < max (min (s * (8 / 10)) (85 / 100) - p) (1 / 10)"
    and "max (min (s * (8 / 10)) (85 / 100) - p) (1 / 10) \<le> 1"
    by linarith+
  then show ?thesis using False
    by (simp add: detectByHeaderPartialMatch_def wellScored_def Let_def p_def s_def)
qed

lemma hd_sortByScore: "ms \<noteq> [] \<Longrightarrow> hd (sortByScore ms) \<in> set ms"
proof -
  assume "ms \<noteq> []"
  then have "length (sortByScore ms) \<noteq> 0" unfolding sortByScore_def length_sort by simp
  then have "sortByScore ms \<noteq> []" by simp
  then have "hd (sortByScore ms) \<in> set (sortByScore ms)" by (rule hd_in_set)
  then show ?thesis by (simp add: sortByScore_def)
qed

lemma headerBonus_nonneg: "0 \<le> headerBonus h"
  by (simp add: headerBonus_def)

lemma numericColumns_score: "c \<in> set (numericColumnsOf fmt headers rows) \<Longrightarrow> 5 / 10 < snd c"
proof -
  assume "c \<in> set (numericColumnsOf fmt headers rows)"
  then obtain i where "5 / 10 < score (analyzeNumericColumn fmt (columnOf rows i))"
    and "snd c = score (analyzeNumericColumn fmt (columnOf rows i)) + headerBonus (headers ! i)"
    by (auto simp: numericColumnsOf_def Let_def split: if_splits)
  then show ?thesis using headerBonus_nonneg[of "headers ! i"] by linarith
qed

lemma data_arith:
  fixes s :: rat
  shows "min (s * (75 / 100)) (8 / 10) \<le> 8 / 10"
    and "5 / 10 < s \<Longrightarrow> 0 < min (s * (75 / 100)) (8 / 10)"
  by (auto simp: min_def)

lemma data_conf: "confidence (detectByDataPatterns fmt headers rows) \<le> 8 / 10"
  using data_arith(1)
  by (simp add: detectByDataPatterns_def createLowConfidenceResult_def Let_def)

lemma data_ok: "wellScored (detectByDataPatterns fmt headers rows)"
proof (cases "numericColumnsOf fmt headers rows = []")
  case True
  then show ?thesis by (simp add: detectByDataPatterns_def low_ok)
next
  case False
  then have "5 / 10 < snd (hd (sortByScore (numericColumnsOf fmt headers rows)))"
    using hd_sortByScore numericColumns_score by blast
  from data_arith(2)[OF this] data_arith(1)[of "snd (hd (sortByScore (numericColumnsOf fmt headers rows)))"]
  have "0 < min (snd (hd (sortByScore (numericColumnsOf fmt headers rows))) * (75 / 100)) (8 / 10)"
    and "min (snd (hd (sortByScore (numericColumnsOf fmt headers rows))) * (75 / 100)) (8 / 10) \<le> 1"
    by linarith+
  then show ?thesis using False
    by (simp add: detectByDataPatterns_def wellScored_def Let_def)
qed

lemma position_conf: "confidence (detectByPositionHeuristics fmt headers rows) \<le> 4 / 10"
  by (simp add: detectByPositionHeuristics_def createLowConfidenceResult_def split: option.split)

lemma position_ok: "wellScored (detectByPositionHeuristics fmt headers rows)"
  by (simp add: wellScored_def detectByPositionHeuristics_def createLowConfidenceResult_def
      split: option.split)

lemma force_inv:
  "0 \<le> snd b \<Longrightarrow> (0 \<le> fst b \<longrightarrow> 0 < snd b) \<Longrightarrow>
   0 \<le> snd (foldl (forceStep fmt rows) b is) \<and>
   (0 \<le> fst (foldl (forceStep fmt rows) b is) \<longrightarrow> 0 < snd (foldl (forceStep fmt rows) b is))"
proof (induction "is" arbitrary: b)
  case Nil
  then show ?case by simp
next
  case (Cons i "is")
  have "0 \<le> snd (forceStep fmt rows b i)"
    and "0 \<le> fst (forceStep fmt rows b i) \<longrightarrow> 0 < snd (forceStep fmt rows b i)"
    using Cons.prems by (auto simp: forceStep_def Let_def)
  then show ?case using Cons.IH by simp
qed

lemma forced_ok:
  assumes "forceDetectBestNumericColumn fmt headers rows = Some r"
  shows "wellScored r"
proof -
  let ?b = "foldl (forceStep fmt rows) (- 1, 0) [0..<length headers]"
  have "0 \<le> fst ?b \<longrightarrow> 0 < snd ?b"
    using force_inv[of "(- 1, 0)" fmt rows "[0..<length headers]"] by simp
  then show ?thesis using assms
    by (auto simp: forceDetectBestNumericColumn_def wellScored_def Let_def split: if_splits)
qed

lemma keepBest_pick:
  "foldl (keepBest t) b rs = Some r \<Longrightarrow> b = Some r \<or> r \<in> set rs"
proof (induction rs arbitrary: b)
  case Nil
  then show ?case by simp
next
  case (Cons x rs)
  then have "keepBest t b x = Some r \<or> r \<in> set rs" by simp
  then show ?case by (auto simp: keepBest_def split: if_splits option.splits)
qed

lemma keepBestFallback_pick:
  "foldl keepBestFallback b rs = Some r \<Longrightarrow> b = Some r \<or> r \<in> set rs"
proof (induction rs arbitrary: b)
  case Nil
  then show ?case by simp
next
  case (Cons x rs)
  then have "keepBestFallback b x = Some r \<or> r \<in> set rs" by simp
  then show ?case by (auto simp: keepBestFallback_def split: if_splits option.splits)
qed

lemma detect_wellScored: "wellScored (detectCostPriceColumn fmt headers rows options)"
proof -
  let ?c = "optCustomPriceKeywords options"
  let ?S = "[detectByHeaderExactMatch headers ?c, detectByHeaderPartialMatch headers ?c,
             detectByDataPatterns fmt headers rows, detectByPositionHeuristics fmt headers rows]"
  let ?F = "[detectByHeaderPartialMatch headers ?c,
             detectByDataPatterns fmt headers rows, detectByPositionHeuristics fmt headers rows]"
  have S: "wellScored r" if "r \<in> set ?S" for r
    using that exact_ok partial_ok data_ok position_ok by auto
  have F: "wellScored r" if "r \<in> set ?F" for r
    using that S by auto
  have 1: "wellScored r" if "foldl (keepBest t) None ?S = Some r" for r t
    using keepBest_pick[OF that] S by blast
  have 2: "wellScored r" if "foldl keepBestFallback None ?F = Some r" for r
    using keepBestFallback_pick[OF that] F by blast
  show ?thesis
    unfolding detectCostPriceColumn_def Let_def
    using 1 2 forced_ok low_ok
    by (auto split: option.split)
qed

text \<open>
  C3. Whatever the headers, the data rows and the options, the confidence of the result of
  \<^verbatim>\<open>detectCostPriceColumn\<close> lies between 0 and 1, and the column index is -1 exactly
  when the confidence is 0.
\<close>

theorem detection_confidence_invariant:
  "0 \<le> confidence (detectCostPriceColumn fmt headers rows options)
   \<and> confidence (detectCostPriceColumn fmt headers rows options) \<le> 1
   \<and> (columnIndex (detectCostPriceColumn fmt headers rows options) = - 1
        \<longleftrightarrow> confidence (detectCostPriceColumn fmt headers rows options) = 0)"
  using detect_wellScored[of fmt headers rows options] by (simp add: wellScored_def)

theorem detection_confidence_invariant_witness:
  "columnIndex (detectCostPriceColumn integerFormat [''Item'', ''Cost'', ''Qty'']
      [[CStr ''A'', CNum (Num 10), CNum (Num 5)], [CStr ''B'', CNum (Num 20), CNum (Num 3)]]
      noOptions) = - 1
   \<and> confidence (detectCostPriceColumn integerFormat [''Item'', ''Cost'', ''Qty'']
      [[CStr ''A'', CNum (Num 10), CNum (Num 5)], [CStr ''B'', CNum (Num 20), CNum (Num 3)]]
      noOptions) = 0"
proof -
  have "columnIndex (detectCostPriceColumn integerFormat [''Item'', ''Cost'', ''Qty'']
      [[CStr ''A'', CNum (Num 10), CNum (Num 5)], [CStr ''B'', CNum (Num 20), CNum (Num 3)]]
      noOptions) = - 1"
    by (simp add: detectCostPriceColumn_def noOptions_def optRequiredDataRows_def
        createLowConfidenceResult_def)
  then show ?thesis
    using detection_confidence_invariant[of integerFormat "[''Item'', ''Cost'', ''Qty'']"
        "[[CStr ''A'', CNum (Num 10), CNum (Num 5)], [CStr ''B'', CNum (Num 20), CNum (Num 3)]]"
        noOptions]
    by simp
qed

section \<open>Detection: the exact header match\<close>


lemma exactMatchFrom_first:
  assumes "i < length hs"
    and "trim (toLowerCase (hs ! i)) \<in> set (map toLowerCase kws)"
    and "\<forall>j<i. trim (toLowerCase (hs ! j)) \<notin> set (map toLowerCase kws)"
  shows "exactMatchFrom kws k hs = Some (k + i)"
  using assms
proof (induction hs arbitrary: i k)
  case Nil
  then show ?case by simp
next
  case (Cons h hs)
  show ?case
  proof (cases i)
    case 0
    with Cons.prems show ?thesis by simp
  next
    case (Suc i')
    with Cons.prems have h: "trim (toLowerCase h) \<notin> set (map toLowerCase kws)" by auto
    have "exactMatchFrom kws (Suc k) hs = Some (Suc k + i')"
      using Cons.prems Suc by (intro Cons.IH) auto
    with h Suc show ?thesis by simp
  qed
qed

lemma keepBest_leader:
  assumes "\<forall>r \<in> set rs. confidence r \<le> confidence e"
  shows "foldl (keepBest t) (Some e) rs = Some e"
  using assms by (induction rs) (auto simp: keepBest_def)


text \<open>
  C4, as stated, fails on data with fewer rows than \<^verbatim>\<open>requiredDataRows\<close> (5 by default):
  the header \<^verbatim>\<open>Cost\<close> is an exact match, yet with two data rows the detection returns the
  zero-confidence result before any strategy runs.
\<close>

theorem exact_match_short_data_counterexample:
  "detectByHeaderExactMatch [''Item'', ''Cost'', ''Qty''] []
     = \<lparr>columnIndex = 1, confidence = 95 / 100,
        detectionMethod = header_exact_match, alternativeColumns = None\<rparr>
   \<and> detectCostPriceColumn integerFormat [''Item'', ''Cost'', ''Qty'']
       [[CStr ''A'', CNum (Num 10), CNum (Num 5)], [CStr ''B'', CNum (Num 20), CNum (Num 3)]]
       noOptions
     = \<lparr>columnIndex = - 1, confidence = 0,
        detectionMethod = header_exact_match, alternativeColumns = None\<rparr>"
  by (simp add: detectByHeaderExactMatch_def COST_PRICE_KEYWORDS_def str_eval
      detectCostPriceColumn_def noOptions_def optRequiredDataRows_def
      createLowConfidenceResult_def)

text \<open>
  C4, amended. With the default options and at least 5 data rows, if the header at index
  \<open>i\<close> equals a keyword (ignoring case and surrounding white space) and no header to its
  left does, \<^verbatim>\<open>detectCostPriceColumn\<close> returns column \<open>i\<close> with confidence 0.95 and the
  exact-match method; the candidates of the three other strategies all have a lower
  confidence.
\<close>

theorem exact_match_outranks:
  assumes "i < length headers"
    and "trim (toLowerCase (headers ! i)) \<in> set (map toLowerCase COST_PRICE_KEYWORDS)"
    and "\<forall>j<i. trim (toLowerCase (headers ! j)) \<notin> set (map toLowerCase COST_PRICE_KEYWORDS)"
    and "5 \<le> length rows"
  shows "detectCostPriceColumn fmt headers rows noOptions
           = \<lparr>columnIndex = int i, confidence = 95 / 100,
              detectionMethod = header_exact_match, alternativeColumns = None\<rparr>
         \<and> confidence (detectByHeaderPartialMatch headers []) < 95 / 100
         \<and> confidence (detectByDataPatterns fmt headers rows) < 95 / 100
         \<and> confidence (detectByPositionHeuristics fmt headers rows) < 95 / 100"
proof -
  let ?e = "\<lparr>columnIndex = int i, confidence = 95 / 100,
              detectionMethod = header_exact_match, alternativeColumns = None\<rparr>"
  have e: "detectByHeaderExactMatch headers [] = ?e"
    using exactMatchFrom_first[OF assms(1), of COST_PRICE_KEYWORDS 0] assms(2,3)
    by (simp add: detectByHeaderExactMatch_def)
  have p: "confidence (detectByHeaderPartialMatch headers []) < 95 / 100"
    using partial_conf[of headers "[]"] by linarith
  have d: "confidence (detectByDataPatterns fmt headers rows) < 95 / 100"
    using data_conf[of fmt headers rows] by linarith
  have h: "confidence (detectByPositionHeuristics fmt headers rows) < 95 / 100"
    using position_conf[of fmt headers rows] by linarith
  have "foldl (keepBest (Num (3 / 10))) (Some ?e)
          [detectByHeaderPartialMatch headers [], detectByDataPatterns fmt headers rows,
           detectByPositionHeuristics fmt headers rows] = Some ?e"
    using p d h by (intro keepBest_leader) auto
  then have "foldl (keepBest (Num (3 / 10))) None
          [detectByHeaderExactMatch headers [], detectByHeaderPartialMatch headers [],
           detectByDataPatterns fmt headers rows,
           detectByPositionHeuristics fmt headers rows] = Some ?e"
    by (simp add: e keepBest_def)
  moreover have "headers \<noteq> []" using assms(1) by auto
  ultimately have "detectCostPriceColumn fmt headers rows noOptions = ?e"
    using assms(4)
    by (simp add: detectCostPriceColumn_def noOptions_def optRequiredDataRows_def
        optCustomPriceKeywords_def optMinConfidence_def Let_def)
  with p d h show ?thesis by simp
qed


theorem exact_match_outranks_witness:
  "detectCostPriceColumn integerFormat [''Item'', ''Cost'', ''Qty'']
     [[CStr ''A'', CNum (Num 10), CNum (Num 5)], [CStr ''B'', CNum (Num 20), CNum (Num 3)],
      [CStr ''C'', CNum (Num 30), CNum (Num 1)], [CStr ''D'', CNum (Num 15), CNum (Num 2)],
      [CStr ''E'', CNum (Num 12), CNum (Num 7)]] noOptions
   = \<lparr>columnIndex = 1, confidence = 95 / 100,
      detectionMethod = header_exact_match, alternativeColumns = None\<rparr>"
proof -
  have 1: "(1::nat) < length [''Item'', ''Cost'', ''Qty'']" by simp
  have 2: "trim (toLowerCase ([''Item'', ''Cost'', ''Qty''] ! 1))
             \<in> set (map toLowerCase COST_PRICE_KEYWORDS)"
    by (simp add: COST_PRICE_KEYWORDS_def str_eval)
  have 3: "\<forall>j<1. trim (toLowerCase ([''Item'', ''Cost'', ''Qty''] ! j))
             \<notin> set (map toLowerCase COST_PRICE_KEYWORDS)"
    by (simp add: COST_PRICE_KEYWORDS_def str_eval)
  show ?thesis using exact_match_outranks[OF 1 2 3, of _ integerFormat] by simp
qed

section \<open>Validation of the markup configuration\<close>


lemma validateInputs_header_only:
  "validateInputs data i config = validateInputs (take 1 data) i config"
  by (cases data) (simp_all add: validateInputs_def)

lemma find_negative:
  assumes "p \<in> set ps" "lt0 p"
  shows "\<exists>p'. find (\<lambda>p. isNaN p \<or> lt0 p) ps = Some p'"
proof (cases "find (\<lambda>p. isNaN p \<or> lt0 p) ps")
  case None
  then show ?thesis using assms by (auto simp: find_None_iff)
next
  case (Some a)
  then show ?thesis by blast
qed

lemma validateInputs_rejects:
  assumes "i < 0 \<or> (\<exists>headers rows. data = headers # rows \<and> int (length headers) \<le> i)
           \<or> percentages config = []
           \<or> (\<exists>p \<in> set (percentages config). lt0 p)
           \<or> lt0 (decimalPlaces config) \<or> gt10 (decimalPlaces config)"
  shows "\<exists>e. validateInputs data i config = Some e"
proof (cases data)
  case Nil
  then show ?thesis by (simp add: validateInputs_def)
next
  case (Cons headers rows)
  consider (a) "i < 0 \<or> int (length headers) \<le> i" | (b) "percentages config = []"
    | (c) "\<exists>p \<in> set (percentages config). lt0 p"
    | (d) "lt0 (decimalPlaces config) \<or> gt10 (decimalPlaces config)"
    using assms Cons by auto
  then show ?thesis
  proof cases
    case a
    then show ?thesis using Cons by (simp add: validateInputs_def)
  next
    case b
    then show ?thesis using Cons by (simp add: validateInputs_def)
  next
    case c
    then obtain p' where "find (\<lambda>p. isNaN p \<or> lt0 p) (percentages config) = Some p'"
      using find_negative by blast
    then show ?thesis using Cons by (simp add: validateInputs_def)
  next
    case d
    then show ?thesis using Cons by (simp add: validateInputs_def split: option.split)
  qed
qed

text \<open>
  C5, as stated, fails for a fractional number of decimal places: \<^verbatim>\<open>decimalPlaces = 2.5\<close>
  passes \<^verbatim>\<open>validateInputs\<close>, the batch succeeds, and \<^verbatim>\<open>calculateSingleMarkup\<close> then yields
  \<^verbatim>\<open>null\<close> for a cost of 10.
\<close>

theorem fractional_decimalPlaces_counterexample:
  "validateInputs [[CStr ''Item'', CStr ''Cost''], [CStr ''A'', CNum (Num 10)]] 1
     \<lparr>percentages = [Num 10], decimalPlaces = Num (5 / 2), currencySymbol = None\<rparr> = None
   \<and> calculateMarkupColumns integerFormat oneDecimalFormat
       [[CStr ''Item'', CStr ''Cost''], [CStr ''A'', CNum (Num 10)]] 1
       \<lparr>percentages = [Num 10], decimalPlaces = Num (5 / 2), currencySymbol = None\<rparr>
     = Inr [\<lparr>percentage = Num 10, columnIndex_mc = 2, header = ''10% Markup''\<rparr>]
   \<and> calculateSingleMarkup (CNum (Num 10)) (Num 10) (Num (5 / 2)) = None"
  by (simp add: validateInputs_def calculateMarkupColumns_def isNaN_def validateCostColumn_def
      isValidCostValue_def cellAt_def isFinite_def Let_def generateMarkupHeader_def
      integerFormat_def char_of_eq_iff enumerate_eq_zip calculateSingleMarkup_def
      numericCost_def toDecimalPlaces_def validPlaces_def floor_numeral_div_rat)

text \<open>
  C5, amended. \<^verbatim>\<open>calculateMarkupColumns\<close> fails with the error of \<^verbatim>\<open>validateInputs\<close>, which
  reads the header row only, whenever the cost column index is negative or not below the
  number of headers, the percentages are empty or contain a negative number, or
  \<^verbatim>\<open>decimalPlaces\<close> is below 0 or above 10.
\<close>

theorem invalid_configuration_fails:
  assumes "i < 0 \<or> (\<exists>headers rows. data = headers # rows \<and> int (length headers) \<le> i)
           \<or> percentages config = []
           \<or> (\<exists>p \<in> set (percentages config). lt0 p)
           \<or> lt0 (decimalPlaces config) \<or> gt10 (decimalPlaces config)"
  shows "\<exists>e. validateInputs (take 1 data) i config = Some e
            \<and> calculateMarkupColumns fmt fixed1 data i config = Inl e"
proof -
  obtain e where "validateInputs data i config = Some e"
    using validateInputs_rejects[OF assms] by blast
  then show ?thesis
    using validateInputs_header_only[of data i config]
    by (simp add: calculateMarkupColumns_def)
qed

theorem invalid_configuration_fails_witness:
  "calculateMarkupColumns integerFormat oneDecimalFormat
     [[CStr ''Item'', CStr ''Cost''], [CStr ''A'', CNum (Num 10)]] 1
     \<lparr>percentages = [Num 10], decimalPlaces = Num 11, currencySymbol = None\<rparr>
   = Inl INVALID_DECIMAL_PLACES"
  using invalid_configuration_fails[of 1 "[[CStr ''Item'', CStr ''Cost''], [CStr ''A'', CNum (Num 10)]]"
      "\<lparr>percentages = [Num 10], decimalPlaces = Num 11, currencySymbol = None\<rparr>"
      integerFormat oneDecimalFormat]
  by (simp add: validateInputs_def isNaN_def)

section \<open>The best price column\<close>


lemma findIndex_first:
  assumes "i < length xs" "P (xs ! i)" "\<forall>j<i. \<not> P (xs ! j)"
  shows "findIndex P xs = Some i"
  using assms
proof (induction xs arbitrary: i)
  case Nil
  then show ?case by simp
next
  case (Cons x xs)
  show ?case
  proof (cases i)
    case 0
    with Cons.prems show ?thesis by simp
  next
    case (Suc i')
    with Cons.prems have "\<not> P x" by auto
    moreover have "findIndex P xs = Some i'"
      using Cons.prems Suc by (intro Cons.IH) auto
    ultimately show ?thesis using Suc by simp
  qed
qed

lemma findIndex_none: "(\<forall>x \<in> set xs. \<not> P x) \<Longrightarrow> findIndex P xs = None"
  by (induction xs) auto

lemma findIndex_bound: "findIndex P xs = Some i \<Longrightarrow> i < length xs"
  by (induction xs arbitrary: i) (auto split: if_splits)

lemma keywordSearch_skip:
  assumes "\<forall>k \<in> set pre. \<forall>h \<in> set headers. \<not> includes_js (headerText fmt h) (toLowerCase k)"
  shows "keywordSearch fmt headers (pre @ rest) = keywordSearch fmt headers rest"
  using assms by (induction pre) (simp_all add: findIndex_none)

lemma keywordSearch_none:
  assumes "\<forall>k \<in> set kws. \<forall>h \<in> set headers. \<not> includes_js (headerText fmt h) (toLowerCase k)"
  shows "keywordSearch fmt headers kws = None"
  using keywordSearch_skip[OF assms, of "[]"] by simp

text \<open>
  C6, as stated, fails: the list of the code has a tenth keyword, \<^verbatim>\<open>price for\<close>, in third
  place. For the headers \<^verbatim>\<open>Unit Cost\<close>, \<^verbatim>\<open>Price for box\<close> the code returns column 1
  (through \<^verbatim>\<open>price for\<close>), where the nine keywords of the claim give column 0 (through
  \<^verbatim>\<open>unit cost\<close>).
\<close>

theorem price_for_keyword_counterexample:
  "findBestPriceColumn integerFormat [CStr ''Unit Cost'', CStr ''Price for box''] = 1
   \<and> findBestPriceColumn_spec integerFormat [CStr ''Unit Cost'', CStr ''Price for box''] = 0"
  by (simp add: findBestPriceColumn_def findBestPriceColumn_spec_def findBestPriceColumnWith_def
      priceKeywords_def specPriceKeywords_def header_eval)

text \<open>
  C6, amended. \<^verbatim>\<open>findBestPriceColumn\<close> goes through the ten keywords of \<open>priceKeywords\<close>
  in order: for the first keyword that some header contains, it returns the leftmost header
  containing it. If no header contains any keyword, it returns the leftmost header without
  an exclusion keyword, and column 0 if every header is excluded. \<^verbatim>\<open>adjustColumnIndex\<close>
  falls back to this search when the original index is past the original headers.
\<close>

theorem findBestPriceColumn_cascade:
  "(priceKeywords = pre @ keyword # post
      \<and> (\<forall>k \<in> set pre. \<forall>h \<in> set headers. \<not> includes_js (headerText fmt h) (toLowerCase k))
      \<and> i < length headers
      \<and> includes_js (headerText fmt (headers ! i)) (toLowerCase keyword)
      \<and> (\<forall>j<i. \<not> includes_js (headerText fmt (headers ! j)) (toLowerCase keyword))
    \<longrightarrow> findBestPriceColumn fmt headers = i)
   \<and> ((\<forall>k \<in> set priceKeywords. \<forall>h \<in> set headers. \<not> includes_js (headerText fmt h) (toLowerCase k))
      \<and> i < length headers
      \<and> \<not> isExcludedHeader fmt (headers ! i)
      \<and> (\<forall>j<i. isExcludedHeader fmt (headers ! j))
    \<longrightarrow> findBestPriceColumn fmt headers = i)
   \<and> ((\<forall>k \<in> set priceKeywords. \<forall>h \<in> set headers. \<not> includes_js (headerText fmt h) (toLowerCase k))
      \<and> (\<forall>h \<in> set headers. isExcludedHeader fmt h)
    \<longrightarrow> findBestPriceColumn fmt headers = 0)
   \<and> (int (length originalHeaders) \<le> originalIndex
    \<longrightarrow> adjustColumnIndex fmt originalHeaders headers originalIndex = findBestPriceColumn fmt headers)"
proof (intro conjI impI)
  assume a: "priceKeywords = pre @ keyword # post
      \<and> (\<forall>k \<in> set pre. \<forall>h \<in> set headers. \<not> includes_js (headerText fmt h) (toLowerCase k))
      \<and> i < length headers
      \<and> includes_js (headerText fmt (headers ! i)) (toLowerCase keyword)
      \<and> (\<forall>j<i. \<not> includes_js (headerText fmt (headers ! j)) (toLowerCase keyword))"
  then have "findIndex (\<lambda>h. includes_js (headerText fmt h) (toLowerCase keyword)) headers = Some i"
    by (intro findIndex_first) auto
  then have "keywordSearch fmt headers (keyword # post) = Some i" by simp
  then have "keywordSearch fmt headers priceKeywords = Some i"
    using a keywordSearch_skip[of pre headers fmt "keyword # post"] by simp
  then show "findBestPriceColumn fmt headers = i"
    by (simp add: findBestPriceColumn_def findBestPriceColumnWith_def)
next
  assume a: "(\<forall>k \<in> set priceKeywords. \<forall>h \<in> set headers. \<not> includes_js (headerText fmt h) (toLowerCase k))
      \<and> i < length headers
      \<and> \<not> isExcludedHeader fmt (headers ! i)
      \<and> (\<forall>j<i. isExcludedHeader fmt (headers ! j))"
  then have "keywordSearch fmt headers priceKeywords = None"
    by (intro keywordSearch_none) auto
  moreover have "findIndex (\<lambda>h. \<not> isExcludedHeader fmt h) headers = Some i"
    using a by (intro findIndex_first) auto
  ultimately show "findBestPriceColumn fmt headers = i"
    by (simp add: findBestPriceColumn_def findBestPriceColumnWith_def)
next
  assume a: "(\<forall>k \<in> set priceKeywords. \<forall>h \<in> set headers. \<not> includes_js (headerText fmt h) (toLowerCase k))
      \<and> (\<forall>h \<in> set headers. isExcludedHeader fmt h)"
  then have "keywordSearch fmt headers priceKeywords = None"
    by (intro keywordSearch_none) auto
  moreover have "findIndex (\<lambda>h. \<not> isExcludedHeader fmt h) headers = None"
    using a by (intro findIndex_none) auto
  ultimately show "findBestPriceColumn fmt headers = 0"
    by (simp add: findBestPriceColumn_def findBestPriceColumnWith_def)
next
  assume "int (length originalHeaders) \<le> originalIndex"
  then show "adjustColumnIndex fmt originalHeaders headers originalIndex = findBestPriceColumn fmt headers"
    by (simp add: adjustColumnIndex_def)
qed

theorem findBestPriceColumn_cascade_witness:
  "findBestPriceColumn integerFormat [CStr ''Unit Cost'', CStr ''Price for box''] = 1
   \<and> findBestPriceColumn integerFormat [CStr ''Code'', CStr ''Qty''] = 1
   \<and> findBestPriceColumn integerFormat [CStr ''Code'', CStr ''Size''] = 0
   \<and> adjustColumnIndex integerFormat [CStr ''Code''] [CStr ''Code'', CStr ''Qty''] 5 = 1"
proof -
  let ?hs = "[CStr ''Unit Cost'', CStr ''Price for box'']"
  let ?gs = "[CStr ''Code'', CStr ''Qty'']"
  let ?es = "[CStr ''Code'', CStr ''Size'']"
  have 1: "priceKeywords = [''unit price'', ''price for carton''] @ ''price for'' #
     [''unit cost'', ''selling price'', ''list price'', ''price'', ''cost'', ''amount'', ''value'']"
    by (simp add: priceKeywords_def)
  have 2: "\<forall>k \<in> set [''unit price'', ''price for carton'']. \<forall>h \<in> set ?hs.
             \<not> includes_js (headerText integerFormat h) (toLowerCase k)"
    by (simp add: header_eval)
  have 3: "(1::nat) < length ?hs" by simp
  have 4: "includes_js (headerText integerFormat (?hs ! 1)) (toLowerCase ''price for'')"
    by (simp add: header_eval)
  have 5: "\<forall>j<1. \<not> includes_js (headerText integerFormat (?hs ! j)) (toLowerCase ''price for'')"
    by (simp add: header_eval)
  have a: "findBestPriceColumn integerFormat ?hs = 1"
    using findBestPriceColumn_cascade[of "[''unit price'', ''price for carton'']" "''price for''"
        _ ?hs integerFormat 1] 1 2 3 4 5
    by blast
  have 6: "\<forall>k \<in> set priceKeywords. \<forall>h \<in> set ?gs.
             \<not> includes_js (headerText integerFormat h) (toLowerCase k)"
    by (simp add: priceKeywords_def header_eval)
  have 7: "(1::nat) < length ?gs" by simp
  have 8: "\<not> isExcludedHeader integerFormat (?gs ! 1)"
    by (simp add: isExcludedHeader_def header_eval)
  have 9: "\<forall>j<1. isExcludedHeader integerFormat (?gs ! j)"
    by (simp add: isExcludedHeader_def header_eval)
  have b: "findBestPriceColumn integerFormat ?gs = 1"
    using findBestPriceColumn_cascade[of _ _ _ ?gs integerFormat 1] 6 7 8 9 by blast
  have 10: "\<forall>k \<in> set priceKeywords. \<forall>h \<in> set ?es.
             \<not> includes_js (headerText integerFormat h) (toLowerCase k)"
    by (simp add: priceKeywords_def header_eval)
  have 11: "\<forall>h \<in> set ?es. isExcludedHeader integerFormat h"
    by (simp add: isExcludedHeader_def header_eval)
  have c: "findBestPriceColumn integerFormat ?es = 0"
    using findBestPriceColumn_cascade[of _ _ _ ?es integerFormat] 10 11 by blast
  have 12: "int (length [CStr ''Code'']) \<le> 5" by simp
  have d: "adjustColumnIndex integerFormat [CStr ''Code''] ?gs 5 = findBestPriceColumn integerFormat ?gs"
    using findBestPriceColumn_cascade[of _ _ _ ?gs integerFormat _ "[CStr ''Code'']" 5] 12 by blast
  show ?thesis using a b c d by simp
qed

section \<open>Locating the header row\<close>


lemma rowScore_empty: "rowScore fmt [] = 0"
  by (simp add: rowScore_def)

lemma headerScan_spec:
  assumes "0 \<le> s" and "headerScan fmt i (b, s) rows = (b', s')"
  shows "s \<le> s' \<and> (\<forall>k<length rows. rowScore fmt (rows ! k) \<le> s')
         \<and> ((b', s') = (b, s)
            \<or> (\<exists>k<length rows. b' = int (i + k) \<and> s' = rowScore fmt (rows ! k) \<and> s < s'
                 \<and> (\<forall>j<k. rowScore fmt (rows ! j) < s')))"
  using assms
proof (induction rows arbitrary: i b s)
  case Nil
  then show ?case by simp
next
  case (Cons row rows)
  show ?case
  proof (cases "length row \<noteq> 0 \<and> s < rowScore fmt row")
    case True
    let ?s1 = "rowScore fmt row"
    from True Cons.prems have run: "headerScan fmt (Suc i) (int i, ?s1) rows = (b', s')"
      and pos: "0 \<le> ?s1" by auto
    from Cons.IH[OF pos run]
    have A: "?s1 \<le> s'" and B: "\<forall>k<length rows. rowScore fmt (rows ! k) \<le> s'"
      and C: "(b', s') = (int i, ?s1)
              \<or> (\<exists>k<length rows. b' = int (Suc i + k) \<and> s' = rowScore fmt (rows ! k) \<and> ?s1 < s'
                   \<and> (\<forall>j<k. rowScore fmt (rows ! j) < s'))"
      by blast+
    have 1: "s \<le> s'" using True A by linarith
    have 2: "\<forall>k<length (row # rows). rowScore fmt ((row # rows) ! k) \<le> s'"
      using A B by (auto simp: nth_Cons split: nat.split)
    from C have 3: "\<exists>k<length (row # rows). b' = int (i + k) \<and> s' = rowScore fmt ((row # rows) ! k)
                      \<and> s < s' \<and> (\<forall>j<k. rowScore fmt ((row # rows) ! j) < s')"
    proof
      assume "(b', s') = (int i, ?s1)"
      then have "b' = int (i + 0) \<and> s' = rowScore fmt ((row # rows) ! 0) \<and> s < s'
                   \<and> (\<forall>j<0. rowScore fmt ((row # rows) ! j) < s')"
        using True by simp
      then show ?thesis by blast
    next
      assume "\<exists>k<length rows. b' = int (Suc i + k) \<and> s' = rowScore fmt (rows ! k) \<and> ?s1 < s'
                   \<and> (\<forall>j<k. rowScore fmt (rows ! j) < s')"
      then obtain k where k: "k < length rows" "b' = int (Suc i + k)" "s' = rowScore fmt (rows ! k)"
        "?s1 < s'" "\<forall>j<k. rowScore fmt (rows ! j) < s'" by blast
      have "\<forall>j<Suc k. rowScore fmt ((row # rows) ! j) < s'"
        using k(4,5) by (auto simp: nth_Cons split: nat.split)
      moreover have "s < s'" using True k(4) by linarith
      ultimately have "Suc k < length (row # rows) \<and> b' = int (i + Suc k)
          \<and> s' = rowScore fmt ((row # rows) ! Suc k) \<and> s < s'
          \<and> (\<forall>j<Suc k. rowScore fmt ((row # rows) ! j) < s')"
        using k(1,2,3) by simp
      then show ?thesis by blast
    qed
    from 1 2 3 show ?thesis by blast
  next
    case False
    then have le: "rowScore fmt row \<le> s"
      using Cons.prems(1) rowScore_empty[of fmt] by (cases row) auto
    from False Cons.prems have run: "headerScan fmt (Suc i) (b, s) rows = (b', s')"
      by (cases "row = []") auto
    from Cons.IH[OF Cons.prems(1) run]
    have A: "s \<le> s'" and B: "\<forall>k<length rows. rowScore fmt (rows ! k) \<le> s'"
      and C: "(b', s') = (b, s)
              \<or> (\<exists>k<length rows. b' = int (Suc i + k) \<and> s' = rowScore fmt (rows ! k) \<and> s < s'
                   \<and> (\<forall>j<k. rowScore fmt (rows ! j) < s'))"
      by blast+
    have 2: "\<forall>k<length (row # rows). rowScore fmt ((row # rows) ! k) \<le> s'"
      using A B le by (auto simp: nth_Cons split: nat.split)
    from C have 3: "(b', s') = (b, s)
       \<or> (\<exists>k<length (row # rows). b' = int (i + k) \<and> s' = rowScore fmt ((row # rows) ! k)
                      \<and> s < s' \<and> (\<forall>j<k. rowScore fmt ((row # rows) ! j) < s'))"
    proof
      assume "(b', s') = (b, s)"
      then show ?thesis by blast
    next
      assume "\<exists>k<length rows. b' = int (Suc i + k) \<and> s' = rowScore fmt (rows ! k) \<and> s < s'
                   \<and> (\<forall>j<k. rowScore fmt (rows ! j) < s')"
      then obtain k where k: "k < length rows" "b' = int (Suc i + k)" "s' = rowScore fmt (rows ! k)"
        "s < s'" "\<forall>j<k. rowScore fmt (rows ! j) < s'" by blast
      have "\<forall>j<Suc k. rowScore fmt ((row # rows) ! j) < s'"
        using k(4,5) le by (auto simp: nth_Cons split: nat.split)
      then have "Suc k < length (row # rows) \<and> b' = int (i + Suc k)
          \<and> s' = rowScore fmt ((row # rows) ! Suc k) \<and> s < s'
          \<and> (\<forall>j<Suc k. rowScore fmt ((row # rows) ! j) < s')"
        using k(1,2,3,4) by simp
      then show ?thesis by blast
    qed
    from A 2 3 show ?thesis by blast
  qed
qed

lemma take_min_length: "take (min n (length xs)) xs = take n xs"
  by (cases "n \<le> length xs") (simp_all add: min_def)

lemma findHeaderRow_take: "findHeaderRow fmt rawData = findHeaderRow fmt (take 10 rawData)"
proof -
  have "take (min 10 (length (take 10 rawData))) (take 10 rawData) = take 10 (take 10 rawData)"
    by (rule take_min_length)
  then have "take (min 10 (length (take 10 rawData))) (take 10 rawData)
               = take (min 10 (length rawData)) rawData"
    by (simp add: take_min_length)
  then show ?thesis unfolding findHeaderRow_def Let_def by (simp only:)
qed

text \<open>
  C7. \<^verbatim>\<open>findHeaderRow\<close> reads the first 10 rows only. It returns -1 exactly when none of
  them scores above 0; otherwise it returns the index of a row whose score is positive, is
  the highest among the examined rows, and is strictly higher than the score of every
  earlier row (an empty row, which the loop skips, scores 0).
\<close>

theorem findHeaderRow_argmax:
  "findHeaderRow fmt rawData = findHeaderRow fmt (take 10 rawData)
   \<and> (findHeaderRow fmt rawData = - 1
        \<longleftrightarrow> (\<forall>k < min 10 (length rawData). rowScore fmt (rawData ! k) \<le> 0))
   \<and> (findHeaderRow fmt rawData \<noteq> - 1 \<longrightarrow>
        (\<exists>k < min 10 (length rawData).
            findHeaderRow fmt rawData = int k
            \<and> 0 < rowScore fmt (rawData ! k)
            \<and> (\<forall>j < min 10 (length rawData). rowScore fmt (rawData ! j) \<le> rowScore fmt (rawData ! k))
            \<and> (\<forall>j<k. rowScore fmt (rawData ! j) < rowScore fmt (rawData ! k))))"
proof -
  let ?n = "min 10 (length rawData)"
  let ?rows = "take ?n rawData"
  obtain b' s' where run: "headerScan fmt 0 (- 1, 0) ?rows = (b', s')"
    by (cases "headerScan fmt 0 (- 1, 0) ?rows") blast
  have res: "findHeaderRow fmt rawData = b'"
    using run by (simp add: findHeaderRow_def)
  have len: "length ?rows = ?n" by simp
  have nth: "?rows ! k = rawData ! k" if "k < ?n" for k
    using that by simp
  from headerScan_spec[OF _ run]
  have A: "0 \<le> s'" and B: "\<forall>k<length ?rows. rowScore fmt (?rows ! k) \<le> s'"
    and C: "(b', s') = (- 1, 0)
            \<or> (\<exists>k<length ?rows. b' = int (0 + k) \<and> s' = rowScore fmt (?rows ! k) \<and> 0 < s'
                 \<and> (\<forall>j<k. rowScore fmt (?rows ! j) < s'))"
    by simp_all
  have B': "\<forall>k < ?n. rowScore fmt (rawData ! k) \<le> s'"
    using B nth len by (metis (no_types, lifting))
  show ?thesis
    using C
  proof
    assume "(b', s') = (- 1, 0)"
    then show ?thesis using res B' findHeaderRow_take by auto
  next
    assume "\<exists>k<length ?rows. b' = int (0 + k) \<and> s' = rowScore fmt (?rows ! k) \<and> 0 < s'
                 \<and> (\<forall>j<k. rowScore fmt (?rows ! j) < s')"
    then obtain k where k: "k < ?n" "b' = int k" "s' = rowScore fmt (?rows ! k)" "0 < s'"
      "\<forall>j<k. rowScore fmt (?rows ! j) < s'"
      using len by auto
    have sk: "s' = rowScore fmt (rawData ! k)" using k(1,3) nth by simp
    have lower: "\<forall>j<k. rowScore fmt (rawData ! j) < rowScore fmt (rawData ! k)"
    proof (intro allI impI)
      fix j assume "j < k"
      then have jn: "j < ?n" using k(1) by simp
      from k(5) \<open>j < k\<close> have "rowScore fmt (?rows ! j) < s'" by blast
      then show "rowScore fmt (rawData ! j) < rowScore fmt (rawData ! k)"
        unfolding nth[OF jn] sk .
    qed
    have ne: "b' \<noteq> - 1" using k(2) by simp
    have notall: "\<not> (\<forall>j < ?n. rowScore fmt (rawData ! j) \<le> 0)"
      using k(1,4) sk by (metis not_less)
    have ex: "\<exists>k < ?n. b' = int k \<and> 0 < rowScore fmt (rawData ! k)
            \<and> (\<forall>j < ?n. rowScore fmt (rawData ! j) \<le> rowScore fmt (rawData ! k))
            \<and> (\<forall>j<k. rowScore fmt (rawData ! j) < rowScore fmt (rawData ! k))"
      using k(1,2,4) sk B' lower by blast
    show ?thesis
      unfolding res using ne notall ex findHeaderRow_take[of fmt rawData, unfolded res] by blast
  qed
qed


lemma score_blank_row: "rowScore integerFormat [CNull, CNull] = 0"
  by (simp add: score_eval)

lemma score_title_row: "rowScore integerFormat [CStr ''ACME Ltd''] = 0"
  by (simp add: score_eval)

lemma score_header_row:
  "rowScore integerFormat [CStr ''Product'', CStr ''Unit Price'', CStr ''Qty''] = 86"
  by (simp add: score_eval)

theorem findHeaderRow_argmax_witness:
  "findHeaderRow integerFormat
     [[CNull, CNull], [CStr ''ACME Ltd''], [CStr ''Product'', CStr ''Unit Price'', CStr ''Qty'']] = 2
   \<and> findHeaderRow integerFormat [[CNull, CNull], [CStr ''ACME Ltd'']] = - 1"
proof -
  let ?g = "[[CNull, CNull], [CStr ''ACME Ltd''], [CStr ''Product'', CStr ''Unit Price'', CStr ''Qty'']]"
  let ?h = "[[CNull, CNull], [CStr ''ACME Ltd'']]"
  have sc: "rowScore integerFormat (?g ! 0) = 0" "rowScore integerFormat (?g ! 1) = 0"
    "rowScore integerFormat (?g ! 2) = 86"
    by (simp_all add: score_blank_row score_title_row score_header_row)
  have n: "min 10 (length ?g) = 3" by simp
  have "\<not> (\<forall>k < min 10 (length ?g). rowScore integerFormat (?g ! k) \<le> 0)"
    unfolding n using sc(3) by (metis lessI not_numeral_le_zero numeral_3_eq_3 numeral_2_eq_2)
  with findHeaderRow_argmax[of integerFormat ?g] obtain k where k: "k < 3" "findHeaderRow integerFormat ?g = int k"
    "0 < rowScore integerFormat (?g ! k)"
    unfolding n by blast
  from k(1) have "k = 0 \<or> k = 1 \<or> k = 2" by auto
  with k(3) sc have "k = 2" by auto
  with k(2) have a: "findHeaderRow integerFormat ?g = 2" by simp
  have "\<forall>k < min 10 (length ?h). rowScore integerFormat (?h ! k) \<le> 0"
    by (simp add: less_Suc_eq score_blank_row score_title_row)
  with findHeaderRow_argmax[of integerFormat ?h] have b: "findHeaderRow integerFormat ?h = - 1" by blast
  from a b show ?thesis by simp
qed

section \<open>Pruning empty columns\<close>

lemma length_le_maxColumns: "row \<in> set data \<Longrightarrow> length row \<le> maxColumns data"
  unfolding maxColumns_def by (induction data) auto

lemma cellAt_outside: "length row \<le> c \<Longrightarrow> cellAt row (int c) = CUndef"
  by (simp add: cellAt_def)

lemma cellAt_inside: "c < length row \<Longrightarrow> cellAt row (int c) = row ! c"
  by (simp add: cellAt_def)

lemma not_important_undefined: "\<not> isImportantHeader fmt CUndef"
  by (simp add: isImportantHeader_def orEmpty_def toLowerCase_def includes_js_def startsWith_def)

lemma no_data_outside:
  assumes "maxColumns data \<le> c" "row \<in> set data"
  shows "\<not> nonEmptyCell (cellAt row (int c))"
  using length_le_maxColumns[OF assms(2)] assms(1)
  by (simp add: cellAt_outside nonEmptyCell_def)

lemma columnsToKeep_iff:
  assumes "data \<noteq> []"
  shows "c \<in> set (columnsToKeep fmt data) \<longleftrightarrow>
           (\<exists>row \<in> set data. nonEmptyCell (cellAt row (int c)))
           \<or> isImportantHeader fmt (cellAt (hd data) (int c))"
proof (cases "c < maxColumns data")
  case True
  then show ?thesis by (simp add: columnsToKeep_def list_ex_iff)
next
  case False
  then have out: "maxColumns data \<le> c" by simp
  have "hd data \<in> set data" using assms by simp
  then have "cellAt (hd data) (int c) = CUndef"
    using length_le_maxColumns out by (intro cellAt_outside) fastforce
  then show ?thesis
    using False no_data_outside[OF out] not_important_undefined
    by (auto simp: columnsToKeep_def)
qed

text \<open>
  C8. In a grid with at least one row, a column index is among the kept ones exactly when
  some row (the header row included) has a value other than \<^verbatim>\<open>null\<close>, \<^verbatim>\<open>undefined\<close> and
  \<^verbatim>\<open>''\<close> there, or the header contains an important keyword; the cleaned grid consists of
  the kept columns, in order. A column headed \<^verbatim>\<open>Cost Price\<close> is always kept.
\<close>

theorem column_kept_iff:
  assumes "data \<noteq> []"
  shows "(c \<in> set (columnsToKeep fmt data) \<longleftrightarrow>
            (\<exists>row \<in> set data. nonEmptyCell (cellAt row (int c)))
            \<or> isImportantHeader fmt (cellAt (hd data) (int c)))
         \<and> removeEmptyColumns fmt data
             = map (\<lambda>row. map (\<lambda>k. orEmpty (cellAt row (int k))) (columnsToKeep fmt data)) data
         \<and> (cellAt (hd data) (int c) = CStr ''Cost Price'' \<longrightarrow> c \<in> set (columnsToKeep fmt data))"
proof -
  have "hd data \<in> set data" using assms by simp
  then have "\<exists>row \<in> set data. nonEmptyCell (cellAt row (int c))"
    if "cellAt (hd data) (int c) = CStr ''Cost Price''"
    using that by (intro bexI[of _ "hd data"]) (simp_all add: nonEmptyCell_def)
  then show ?thesis
    using columnsToKeep_iff[OF assms, of c fmt] assms
    by (simp add: removeEmptyColumns_def)
qed

lemma keep_example:
  "columnsToKeep integerFormat
     [[CStr ''Item'', CStr ''Cost Price'', CNull], [CStr ''A'', CNull, CNull]] = [0, 1]"
  by (simp add: prune_eval)

theorem column_kept_iff_witness:
  "1 \<in> set (columnsToKeep integerFormat
       [[CStr ''Item'', CStr ''Cost Price'', CNull], [CStr ''A'', CNull, CNull]])
   \<and> 2 \<notin> set (columnsToKeep integerFormat
       [[CStr ''Item'', CStr ''Cost Price'', CNull], [CStr ''A'', CNull, CNull]])
   \<and> removeEmptyColumns integerFormat
       [[CStr ''Item'', CStr ''Cost Price'', CNull], [CStr ''A'', CNull, CNull]]
     = [[CStr ''Item'', CStr ''Cost Price''], [CStr ''A'', CStr '''']]"
proof -
  let ?d = "[[CStr ''Item'', CStr ''Cost Price'', CNull], [CStr ''A'', CNull, CNull]]"
  have ne: "?d \<noteq> []" by simp
  have h: "cellAt (hd ?d) (int 1) = CStr ''Cost Price''" by (simp add: cellAt_def)
  have a: "1 \<in> set (columnsToKeep integerFormat ?d)"
    using column_kept_iff[OF ne, of 1 integerFormat] h by blast
  have "\<not> ((\<exists>row \<in> set ?d. nonEmptyCell (cellAt row (int 2)))
            \<or> isImportantHeader integerFormat (cellAt (hd ?d) (int 2)))"
    by (simp add: nonEmptyCell_def cellAt_def isImportantHeader_def orEmpty_def toLowerCase_def
        includes_js_def startsWith_def)
  then have b: "2 \<notin> set (columnsToKeep integerFormat ?d)"
    using column_kept_iff[OF ne, of 2 integerFormat] by blast
  have c: "removeEmptyColumns integerFormat ?d
     = map (\<lambda>row. map (\<lambda>k. orEmpty (cellAt row (int k))) (columnsToKeep integerFormat ?d)) ?d"
    using column_kept_iff[OF ne, of 0 integerFormat] by blast
  show ?thesis using a b c by (simp add: keep_example orEmpty_def cellAt_def)
qed

section \<open>Zero cells after pruning\<close>

lemma cleaned_row:
  assumes "data \<noteq> []" "i < length data"
  shows "removeEmptyColumns fmt data ! i
           = map (\<lambda>k. orEmpty (cellAt (data ! i) (int k))) (columnsToKeep fmt data)"
  using assms by (simp add: removeEmptyColumns_def)

lemma orEmpty_zero: "orEmpty (CNum (Num 0)) = CStr []" "orEmpty (CBool False) = CStr []"
  by (simp_all add: orEmpty_def)

lemma markupCell_blank: "markupCell (CStr []) places mc = CStr []"
  by (simp add: markupCell_def calculateSingleMarkup_def numericCost_def parseNumericValue_def)

lemma markupCells_blank:
  "map (markupCell (CStr []) places) mcs = replicate (length mcs) (CStr [])"
  by (induction mcs) (simp_all add: markupCell_blank)

lemma applied_row:
  assumes "i < length dataRows"
  shows "applyMarkupCalculations fmt (headerRow # dataRows) idx mcs config ! Suc i
           = (removeEmptyColumns fmt (headerRow # dataRows) ! Suc i)
             @ map (markupCell
                     (cellAt (removeEmptyColumns fmt (headerRow # dataRows) ! Suc i)
                        (int (adjustColumnIndex fmt headerRow
                               (hd (removeEmptyColumns fmt (headerRow # dataRows))) idx)))
                     (decimalPlaces config)) mcs"
proof -
  let ?cleaned = "removeEmptyColumns fmt (headerRow # dataRows)"
  have len: "length ?cleaned = Suc (length dataRows)" by (simp add: removeEmptyColumns_def)
  have i: "i < length (tl ?cleaned)" using assms len by simp
  then have tl: "tl ?cleaned ! i = ?cleaned ! Suc i" by (rule nth_tl)
  show ?thesis
    using i by (simp add: applyMarkupCalculations_def Let_def tl)
qed

lemma keep_fallback_example:
  "columnsToKeep integerFormat [[CStr ''Stock'', CStr ''Wholesale''], [CNum (Num 7), CNum (Num 0)]]
     = [0, 1]"
  by (simp add: prune_eval)

lemma cleaned_fallback_example:
  "removeEmptyColumns integerFormat [[CStr ''Stock'', CStr ''Wholesale''], [CNum (Num 7), CNum (Num 0)]]
     = [[CStr ''Stock'', CStr ''Wholesale''], [CNum (Num 7), CStr '''']]"
  by (simp add: removeEmptyColumns_def keep_fallback_example orEmpty_def cellAt_def)

lemma adjust_fallback_example:
  "adjustColumnIndex integerFormat [CStr ''Stock'', CStr ''Wholesale'']
     [CStr ''Stock'', CStr ''Wholesale''] 1 = 0"
  by (simp add: adjustColumnIndex_def strictEq_def cellAt_def findBestPriceColumn_def
      findBestPriceColumnWith_def priceKeywords_def isExcludedHeader_def header_eval)

lemma markup_seven: "calculateSingleMarkup (CNum (Num 7)) (Num 10) (Num 2) = Some (Num (77 / 10))"
  by (simp add: markup_eval double_eval)

text \<open>
  C9, as stated, fails in its second part: the markup is computed from the column that
  \<^verbatim>\<open>adjustColumnIndex\<close> selects, which need not be the one at \<^verbatim>\<open>costColumnIndex\<close>. With the
  headers \<^verbatim>\<open>Stock\<close>, \<^verbatim>\<open>Wholesale\<close> and cost column 1, the header \<^verbatim>\<open>Wholesale\<close> contains
  none of \<^verbatim>\<open>price\<close>, \<^verbatim>\<open>cost\<close>, \<^verbatim>\<open>unit\<close>, the fallback search returns column 0, and the
  row with cost cell 0 gets the markup 7.7 of its stock cell 7.
\<close>

theorem fallback_cost_column_counterexample:
  "cellAt [CNum (Num 7), CNum (Num 0)] 1 = CNum (Num 0)
   \<and> applyMarkupCalculations integerFormat
       [[CStr ''Stock'', CStr ''Wholesale''], [CNum (Num 7), CNum (Num 0)]] 1
       [\<lparr>percentage = Num 10, columnIndex_mc = 2, header = ''10% Markup''\<rparr>]
       \<lparr>percentages = [Num 10], decimalPlaces = Num 2, currencySymbol = None\<rparr>
     = [[CStr ''Stock'', CStr ''Wholesale'', CStr ''10% Markup''],
        [CNum (Num 7), CStr '''', CNum (Num (77 / 10))]]"
  by (simp add: applyMarkupCalculations_def cleaned_fallback_example adjust_fallback_example
      markupCell_def markup_seven cellAt_def)

text \<open>
  C9, amended. In the cleaned grid, a cell of a kept column whose original value was the
  number 0 or \<^verbatim>\<open>false\<close> is the empty string. Hence, for a data row whose cell in the
  column that \<^verbatim>\<open>adjustColumnIndex\<close> selects as the cost column is the number 0,
  \<^verbatim>\<open>applyMarkupCalculations\<close> appends one empty string for each markup column.
\<close>

theorem zero_cells_blanked:
  assumes "data = headerRow # dataRows"
  shows "(i < length data \<and> j < length (columnsToKeep fmt data)
          \<and> (cellAt (data ! i) (int (columnsToKeep fmt data ! j)) = CNum (Num 0)
              \<or> cellAt (data ! i) (int (columnsToKeep fmt data ! j)) = CBool False)
          \<longrightarrow> removeEmptyColumns fmt data ! i ! j = CStr [])
       \<and> (r < length dataRows
          \<and> adjustColumnIndex fmt headerRow (hd (removeEmptyColumns fmt data)) costColumnIndex
              < length (columnsToKeep fmt data)
          \<and> cellAt (dataRows ! r)
               (int (columnsToKeep fmt data
                      ! adjustColumnIndex fmt headerRow (hd (removeEmptyColumns fmt data)) costColumnIndex))
              = CNum (Num 0)
          \<longrightarrow> applyMarkupCalculations fmt data costColumnIndex markupColumns config ! Suc r
                = (removeEmptyColumns fmt data ! Suc r) @ replicate (length markupColumns) (CStr []))"
proof (intro conjI impI)
  have ne: "data \<noteq> []" using assms by simp
  {
    assume a: "i < length data \<and> j < length (columnsToKeep fmt data)
          \<and> (cellAt (data ! i) (int (columnsToKeep fmt data ! j)) = CNum (Num 0)
              \<or> cellAt (data ! i) (int (columnsToKeep fmt data ! j)) = CBool False)"
    then have "orEmpty (cellAt (data ! i) (int (columnsToKeep fmt data ! j))) = CStr []"
      using orEmpty_zero by auto
    then show "removeEmptyColumns fmt data ! i ! j = CStr []"
      using a cleaned_row[OF ne, of i fmt] by simp
  }
  {
    let ?adj = "adjustColumnIndex fmt headerRow (hd (removeEmptyColumns fmt data)) costColumnIndex"
    let ?keep = "columnsToKeep fmt data"
    assume a: "r < length dataRows \<and> ?adj < length ?keep
          \<and> cellAt (dataRows ! r) (int (?keep ! ?adj)) = CNum (Num 0)"
    have Sr: "Suc r < length data" "data ! Suc r = dataRows ! r" using a assms by simp_all
    have row: "removeEmptyColumns fmt data ! Suc r
                 = map (\<lambda>k. orEmpty (cellAt (dataRows ! r) (int k))) ?keep"
      using cleaned_row[OF ne Sr(1), of fmt] Sr(2) by simp
    have "cellAt (removeEmptyColumns fmt data ! Suc r) (int ?adj)
            = orEmpty (cellAt (dataRows ! r) (int (?keep ! ?adj)))"
      using a by (simp add: row cellAt_inside)
    then have cost: "cellAt (removeEmptyColumns fmt data ! Suc r) (int ?adj) = CStr []"
      using a orEmpty_zero(1) by simp
    have "applyMarkupCalculations fmt data costColumnIndex markupColumns config ! Suc r
            = (removeEmptyColumns fmt data ! Suc r)
              @ map (markupCell (CStr []) (decimalPlaces config)) markupColumns"
      using applied_row[of r dataRows fmt headerRow costColumnIndex markupColumns config] a cost
      unfolding assms by simp
    then show "applyMarkupCalculations fmt data costColumnIndex markupColumns config ! Suc r
                = (removeEmptyColumns fmt data ! Suc r) @ replicate (length markupColumns) (CStr [])"
      by (simp add: markupCells_blank)
  }
qed

lemma keep_zero_example:
  "columnsToKeep integerFormat [[CStr ''Item'', CStr ''Cost''], [CStr ''A'', CNum (Num 0)]] = [0, 1]"
  by (simp add: prune_eval)

lemma cleaned_zero_example:
  "removeEmptyColumns integerFormat [[CStr ''Item'', CStr ''Cost''], [CStr ''A'', CNum (Num 0)]]
     = [[CStr ''Item'', CStr ''Cost''], [CStr ''A'', CStr '''']]"
  by (simp add: removeEmptyColumns_def keep_zero_example orEmpty_def cellAt_def)

lemma adjust_zero_example:
  "adjustColumnIndex integerFormat [CStr ''Item'', CStr ''Cost''] [CStr ''Item'', CStr ''Cost''] 1 = 1"
  by (simp add: adjustColumnIndex_def strictEq_def cellAt_def orEmpty_def includes_js_def
      startsWith_def toLowerCase_def lowerChar_def char_of_eq_iff)

theorem zero_cells_blanked_witness:
  "removeEmptyColumns integerFormat [[CStr ''Item'', CStr ''Cost''], [CStr ''A'', CNum (Num 0)]] ! 1 ! 1
     = CStr ''''
   \<and> applyMarkupCalculations integerFormat
       [[CStr ''Item'', CStr ''Cost''], [CStr ''A'', CNum (Num 0)]] 1
       [\<lparr>percentage = Num 10, columnIndex_mc = 2, header = ''10% Markup''\<rparr>]
       \<lparr>percentages = [Num 10], decimalPlaces = Num 2, currencySymbol = None\<rparr> ! 1
     = [CStr ''A'', CStr '''', CStr '''']"
proof -
  let ?h = "[CStr ''Item'', CStr ''Cost'']"
  let ?rows = "[[CStr ''A'', CNum (Num 0)]]"
  let ?mcs = "[\<lparr>percentage = Num 10, columnIndex_mc = 2, header = ''10% Markup''\<rparr>]"
  let ?cfg = "\<lparr>percentages = [Num 10], decimalPlaces = Num 2, currencySymbol = None\<rparr>"
  have 0: "?h # ?rows = ?h # ?rows" by simp
  have 1: "(0::nat) < length ?rows" by simp
  have 2: "adjustColumnIndex integerFormat ?h (hd (removeEmptyColumns integerFormat (?h # ?rows))) 1
             < length (columnsToKeep integerFormat (?h # ?rows))"
    by (simp add: cleaned_zero_example adjust_zero_example keep_zero_example)
  have 3: "cellAt (?rows ! 0) (int (columnsToKeep integerFormat (?h # ?rows)
             ! adjustColumnIndex integerFormat ?h (hd (removeEmptyColumns integerFormat (?h # ?rows))) 1))
           = CNum (Num 0)"
    by (simp add: cleaned_zero_example adjust_zero_example keep_zero_example cellAt_def)
  have a: "applyMarkupCalculations integerFormat (?h # ?rows) 1 ?mcs ?cfg ! Suc 0
     = (removeEmptyColumns integerFormat (?h # ?rows) ! Suc 0) @ replicate (length ?mcs) (CStr [])"
    using zero_cells_blanked[OF 0, of _ _ integerFormat 0 1 ?mcs ?cfg] 1 2 3 by blast
  have 4: "Suc 0 < length (?h # ?rows)" by simp
  have 5: "Suc 0 < length (columnsToKeep integerFormat (?h # ?rows))"
    by (simp add: keep_zero_example)
  have 6: "cellAt ((?h # ?rows) ! Suc 0) (int (columnsToKeep integerFormat (?h # ?rows) ! Suc 0))
             = CNum (Num 0)"
    by (simp add: keep_zero_example cellAt_def)
  have b: "removeEmptyColumns integerFormat (?h # ?rows) ! Suc 0 ! Suc 0 = CStr []"
    using zero_cells_blanked[OF 0, of "Suc 0" "Suc 0" integerFormat] 4 5 6 by blast
  from a b show ?thesis by (simp add: cleaned_zero_example)
qed

end
